theory Spec2Isabelle
  imports Main
begin

section \<open>C strings and character classes\<close>

text \<open>
  Bytes are \<^typ>\<open>char\<close>; a buffer is a \<^typ>\<open>string\<close>. A pointer that may be
  \<^verbatim>\<open>NULL\<close> is a \<^typ>\<open>string option\<close>. The C library reads a buffer up to its first
  zero byte.
\<close>

definition NUL :: char where
  "NUL = CHR 0x00"

definition cstr :: "string \<Rightarrow> string" where
  "cstr buf = takeWhile (\<lambda>c. c \<noteq> NUL) buf"

text \<open>\<^verbatim>\<open>isspace\<close> in the "C" locale: space, \<^verbatim>\<open>\t \n \v \f \r\<close>.\<close>

definition isspace :: "char \<Rightarrow> bool" where
  "isspace c \<longleftrightarrow> c = CHR 0x20 \<or> c = CHR 0x09 \<or> c = CHR 0x0A \<or> c = CHR 0x0B
     \<or> c = CHR 0x0C \<or> c = CHR 0x0D"

definition STF_OPEN_TAG :: char where
  "STF_OPEN_TAG = CHR ''{''"

definition STF_CLOSE_TAG :: char where
  "STF_CLOSE_TAG = CHR ''}''"

definition STF_ESCAPE_TAG :: char where
  "STF_ESCAPE_TAG = CHR '' ''"

section \<open>The chunk reader: \<^verbatim>\<open>read_stf_chunk\<close>\<close>

text \<open>
  Standard input is the list of bytes not yet read; \<^verbatim>\<open>getc\<close> takes the head and
  returns \<^verbatim>\<open>EOF\<close> on the empty list; \<^verbatim>\<open>ungetc\<close> puts a byte back in front, and
  \<^verbatim>\<open>ungetc(EOF)\<close> does nothing.

  The tag and value buffers are the bytes stored so far. \<^verbatim>\<open>*tag\<close> and \<^verbatim>\<open>*value\<close> are
  \<^verbatim>\<open>NULL\<close> until the first byte is stored, so the returned pointer is \<^verbatim>\<open>NULL\<close>
  exactly when the buffer is empty: the first byte stored in the value is never
  whitespace, hence the trailing trim never empties a value. Buffers grow zero-filled;
  the model takes them to be terminated (the source stores no terminator when a tag
  is exactly a multiple of 32 bytes or a value a multiple of 1024 bytes long).

  The diagnostics on standard error (\<^verbatim>\<open>warnx\<close> for an empty tag, the printing of
  comments) do not influence the control flow and are left out.
\<close>

datatype chunk_state =
  STF_CHUNK_TAG | STF_CHUNK_DATA | STF_CHUNK_COMMENT | STF_CHUNK_NOTE | STF_CHUNK_END

type_synonym chunk = "string option \<times> string option"

definition buf_ptr :: "string \<Rightarrow> string option" where
  "buf_ptr buf = (if buf = [] then None else Some (cstr buf))"

text \<open>\<^verbatim>\<open>while (valsz && isspace((*value)[valsz - 1])) (*value)[--valsz] = '\0';\<close>\<close>

definition trim_trailing :: "string \<Rightarrow> string" where
  "trim_trailing buf = rev (dropWhile isspace (rev buf))"

text \<open>The tags that carry no data (the \<^verbatim>\<open>strcmp\<close> chain in state \<^verbatim>\<open>STF_CHUNK_TAG\<close>).\<close>

definition is_terminator_tag :: "string \<Rightarrow> bool" where
  "is_terminator_tag t \<longleftrightarrow> t = '';'' \<or> t = ''+'' \<or> t = ''-'' \<or> t = ''.'' \<or> t = ''!''"

text \<open>
  The \<^verbatim>\<open>while (state != STF_CHUNK_END)\<close> loop, one byte per call. \<open>None\<close> is the
  return value \<^verbatim>\<open>-1\<close> (end of input before \<^verbatim>\<open>STF_CHUNK_END\<close>); \<open>Some\<close> is the return
  value \<^verbatim>\<open>0\<close> with the two out-parameters and the input left. Where a tag opens
  after data, both bytes looked at go back to the input and the loop ends in state
  \<^verbatim>\<open>STF_CHUNK_END\<close> with the value trimmed.
\<close>

fun chunk_loop :: "chunk_state \<Rightarrow> string \<Rightarrow> string \<Rightarrow> string \<Rightarrow> (chunk \<times> string) option" where
  "chunk_loop STF_CHUNK_END tagb valb inp = Some ((buf_ptr tagb, buf_ptr valb), inp)"
| "chunk_loop st tagb valb [] = None"
| "chunk_loop STF_CHUNK_COMMENT tagb valb (c # rest) =
     (if isspace c then chunk_loop STF_CHUNK_COMMENT tagb valb rest
      else if c = STF_OPEN_TAG then chunk_loop STF_CHUNK_TAG tagb valb rest
      else chunk_loop STF_CHUNK_DATA ''S'' (valb @ [c]) rest)"
| "chunk_loop STF_CHUNK_DATA tagb valb (c # rest) =
     (if c = STF_OPEN_TAG then
        (case rest of
           [] \<Rightarrow> Some ((buf_ptr tagb, buf_ptr (trim_trailing valb)), [c])
         | tagc # rest' \<Rightarrow>
             if tagc \<noteq> STF_ESCAPE_TAG
             then Some ((buf_ptr tagb, buf_ptr (trim_trailing valb)), c # tagc # rest')
             else chunk_loop STF_CHUNK_DATA tagb (valb @ [c]) rest')
      else if isspace c \<and> valb = [] then chunk_loop STF_CHUNK_DATA tagb valb rest
      else chunk_loop STF_CHUNK_DATA tagb (valb @ [c]) rest)"
| "chunk_loop STF_CHUNK_TAG tagb valb (c # rest) =
     (if c = STF_CLOSE_TAG then
        (if tagb = [] then chunk_loop STF_CHUNK_DATA tagb valb rest
         else if is_terminator_tag (cstr tagb)
         then Some ((buf_ptr tagb, buf_ptr valb), rest)
         else chunk_loop STF_CHUNK_DATA tagb valb rest)
      else chunk_loop STF_CHUNK_TAG (tagb @ [c]) valb rest)"
| "chunk_loop STF_CHUNK_NOTE tagb valb (c # rest) = chunk_loop STF_CHUNK_NOTE tagb valb rest"

definition read_stf_chunk :: "string \<Rightarrow> (chunk \<times> string) option" where
  "read_stf_chunk inp = chunk_loop STF_CHUNK_COMMENT [] [] inp"

section \<open>The C library's time functions\<close>

text \<open>
  \<^verbatim>\<open>strptime\<close> and \<^verbatim>\<open>strftime\<close> belong to the C library, not to the program. They are
  modelled after the GNU C library in the "C" locale, for the conversion
  specifications that the program's format strings use (\<^verbatim>\<open>%m %d %Y %y %H %I %M %S %p %b\<close>,
  and \<^verbatim>\<open>%D\<close>, \<^verbatim>\<open>%T\<close> as their expansions); any other conversion fails in the model.
  Of \<^verbatim>\<open>struct tm\<close> only the six fields that \<^verbatim>\<open>JSON_DATE_FORMAT\<close> prints are kept.
\<close>

record tm =
  tm_sec :: int
  tm_min :: int
  tm_hour :: int
  tm_mday :: int
  tm_mon :: int
  tm_year :: int

text \<open>\<^verbatim>\<open>struct tm parsed = {0};\<close>\<close>

definition zero_tm :: tm where
  "zero_tm = \<lparr>tm_sec = 0, tm_min = 0, tm_hour = 0, tm_mday = 0, tm_mon = 0, tm_year = 0\<rparr>"

definition isdigit :: "char \<Rightarrow> bool" where
  "isdigit c \<longleftrightarrow> (48::nat) \<le> of_char c \<and> of_char c \<le> (57::nat)"

definition digit_val :: "char \<Rightarrow> int" where
  "digit_val c = int (of_char c) - 48"

definition tolower :: "char \<Rightarrow> char" where
  "tolower c =
     (case map_of (zip ''ABCDEFGHIJKLMNOPQRSTUVWXYZ'' ''abcdefghijklmnopqrstuvwxyz'') c of
        Some l \<Rightarrow> l
      | None \<Rightarrow> c)"

text \<open>
  The parser's working state: the read pointer \<open>rp\<close>, the \<^verbatim>\<open>struct tm\<close> being
  filled, and the two flags that decide the 12-hour correction at the end.
\<close>

record pstate =
  rp :: string
  tmv :: tm
  have_I :: bool
  is_pm :: bool

text \<open>
  \<^verbatim>\<open>get_number(from, to, n)\<close>: skip white space, require a digit, then read at most
  \<open>n\<close> digits while ten times the value stays within \<open>to\<close>; fail outside
  \<open>from..to\<close>. The end of the string is a zero byte, which is no digit.
\<close>

fun get_digits :: "nat \<Rightarrow> int \<Rightarrow> int \<Rightarrow> string \<Rightarrow> int \<times> string" where
  "get_digits n to val [] = (val, [])"
| "get_digits n to val (c # r) =
     (let val' = val * 10 + digit_val c in
      if n - 1 > 0 \<and> val' * 10 \<le> to \<and> (case r of [] \<Rightarrow> False | d # _ \<Rightarrow> isdigit d)
      then get_digits (n - 1) to val' r
      else (val', r))"

definition get_number :: "int \<Rightarrow> int \<Rightarrow> nat \<Rightarrow> string \<Rightarrow> (int \<times> string) option" where
  "get_number from to n s =
     (let s1 = dropWhile isspace s in
      case s1 of
        [] \<Rightarrow> None
      | c # _ \<Rightarrow>
          if \<not> isdigit c then None
          else (case get_digits n to 0 s1 of
                  (val, s2) \<Rightarrow> if val < from \<or> val > to then None else Some (val, s2)))"

text \<open>\<^verbatim>\<open>match_string\<close>: \<^verbatim>\<open>strncasecmp\<close> over the length of the expected word.\<close>

definition match_string :: "string \<Rightarrow> string \<Rightarrow> string option" where
  "match_string cs s =
     (if map tolower (take (length cs) s) = map tolower cs
      then Some (drop (length cs) s) else None)"

definition month_name :: "string list" where
  "month_name = [''January'', ''February'', ''March'', ''April'', ''May'', ''June'', ''July'',
     ''August'', ''September'', ''October'', ''November'', ''December'']"

definition ab_month_name :: "string list" where
  "ab_month_name = [''Jan'', ''Feb'', ''Mar'', ''Apr'', ''May'', ''Jun'', ''Jul'',
     ''Aug'', ''Sep'', ''Oct'', ''Nov'', ''Dec'']"

fun match_month :: "nat \<Rightarrow> (string \<times> string) list \<Rightarrow> string \<Rightarrow> (nat \<times> string) option" where
  "match_month cnt [] s = None"
| "match_month cnt ((full, ab) # ms) s =
     (case match_string full s of
        Some s' \<Rightarrow> Some (cnt, s')
      | None \<Rightarrow>
          (case match_string ab s of
             Some s' \<Rightarrow> Some (cnt, s')
           | None \<Rightarrow> match_month (Suc cnt) ms s))"

definition conv_number ::
  "int \<Rightarrow> int \<Rightarrow> nat \<Rightarrow> (int \<Rightarrow> pstate \<Rightarrow> pstate) \<Rightarrow> pstate \<Rightarrow> bool \<times> pstate" where
  "conv_number from to n store ps =
     (case get_number from to n (rp ps) of
        None \<Rightarrow> (False, ps)
      | Some (val, s) \<Rightarrow> (True, store val (ps\<lparr>rp := s\<rparr>)))"

text \<open>
  One conversion specification. The result is the success flag and the state; on
  failure the state keeps what earlier conversions stored.
\<close>

definition conv_simple :: "char \<Rightarrow> pstate \<Rightarrow> bool \<times> pstate" where
  "conv_simple k ps =
    (if k = CHR ''%'' then
       (case rp ps of
          [] \<Rightarrow> (False, ps)
        | c # s \<Rightarrow> if c = CHR ''%'' then (True, ps\<lparr>rp := s\<rparr>) else (False, ps))
     else if k = CHR ''b'' \<or> k = CHR ''B'' \<or> k = CHR ''h'' then
       (case match_month 0 (zip month_name ab_month_name) (rp ps) of
          None \<Rightarrow> (False, ps)
        | Some (cnt, s) \<Rightarrow> (True, ps\<lparr>rp := s, tmv := (tmv ps)\<lparr>tm_mon := int cnt\<rparr>\<rparr>))
     else if k = CHR ''d'' \<or> k = CHR ''e'' then
       conv_number 1 31 2 (\<lambda>v p. p\<lparr>tmv := (tmv p)\<lparr>tm_mday := v\<rparr>\<rparr>) ps
     else if k = CHR ''H'' \<or> k = CHR ''k'' then
       conv_number 0 23 2 (\<lambda>v p. p\<lparr>tmv := (tmv p)\<lparr>tm_hour := v\<rparr>, have_I := False\<rparr>) ps
     else if k = CHR ''I'' \<or> k = CHR ''l'' then
       conv_number 1 12 2 (\<lambda>v p. p\<lparr>tmv := (tmv p)\<lparr>tm_hour := v mod 12\<rparr>, have_I := True\<rparr>) ps
     else if k = CHR ''m'' then
       conv_number 1 12 2 (\<lambda>v p. p\<lparr>tmv := (tmv p)\<lparr>tm_mon := v - 1\<rparr>\<rparr>) ps
     else if k = CHR ''M'' then
       conv_number 0 59 2 (\<lambda>v p. p\<lparr>tmv := (tmv p)\<lparr>tm_min := v\<rparr>\<rparr>) ps
     else if k = CHR ''p'' then
       (case match_string ''AM'' (rp ps) of
          Some s \<Rightarrow> (True, ps\<lparr>rp := s, is_pm := False\<rparr>)
        | None \<Rightarrow>
            (case match_string ''PM'' (rp ps) of
               Some s \<Rightarrow> (True, ps\<lparr>rp := s, is_pm := True\<rparr>)
             | None \<Rightarrow> (False, ps)))
     else if k = CHR ''S'' then
       conv_number 0 61 2 (\<lambda>v p. p\<lparr>tmv := (tmv p)\<lparr>tm_sec := v\<rparr>\<rparr>) ps
     else if k = CHR ''y'' then
       conv_number 0 99 2
         (\<lambda>v p. p\<lparr>tmv := (tmv p)\<lparr>tm_year := (if v \<ge> 69 then v else v + 100)\<rparr>\<rparr>) ps
     else if k = CHR ''Y'' then
       conv_number 0 9999 4 (\<lambda>v p. p\<lparr>tmv := (tmv p)\<lparr>tm_year := v - 1900\<rparr>\<rparr>) ps
     else (False, ps))"

text \<open>
  The format loop: white space in the format skips any white space in the input, any
  other byte but \<^verbatim>\<open>%\<close> must match the next input byte, \<^verbatim>\<open>%\<close> starts a conversion.
\<close>

fun strptime_loop ::
  "(char \<Rightarrow> pstate \<Rightarrow> bool \<times> pstate) \<Rightarrow> string \<Rightarrow> pstate \<Rightarrow> bool \<times> pstate" where
  "strptime_loop cv [] ps = (True, ps)"
| "strptime_loop cv (f # fmt) ps =
     (if isspace f then strptime_loop cv fmt (ps\<lparr>rp := dropWhile isspace (rp ps)\<rparr>)
      else if f \<noteq> CHR ''%'' then
        (case rp ps of
           [] \<Rightarrow> (False, ps)
         | c # s \<Rightarrow> if c = f then strptime_loop cv fmt (ps\<lparr>rp := s\<rparr>) else (False, ps))
      else
        (case fmt of
           [] \<Rightarrow> (False, ps)
         | k # fmt' \<Rightarrow>
             (case cv k ps of
                (True, ps') \<Rightarrow> strptime_loop cv fmt' ps'
              | (False, ps') \<Rightarrow> (False, ps'))))"

text \<open>
  \<^verbatim>\<open>%D\<close> and \<^verbatim>\<open>%T\<close> parse their expansion by a call of the parser on itself
  (the library's \<^verbatim>\<open>recursive\<close>). That call works on a copy of the \<^verbatim>\<open>struct tm\<close> and
  of the flags, which it writes back only when it succeeds: after a failure the
  caller's state is as it was before the conversion.
\<close>

definition recursive_fmt :: "string \<Rightarrow> pstate \<Rightarrow> bool \<times> pstate" where
  "recursive_fmt new_fmt ps =
     (case strptime_loop conv_simple new_fmt ps of
        (True, ps') \<Rightarrow> (True, ps')
      | (False, _) \<Rightarrow> (False, ps))"

definition conv :: "char \<Rightarrow> pstate \<Rightarrow> bool \<times> pstate" where
  "conv k ps =
     (if k = CHR ''D'' then recursive_fmt ''%m/%d/%y'' ps
      else if k = CHR ''T'' then recursive_fmt ''%H:%M:%S'' ps
      else conv_simple k ps)"

text \<open>
  \<^verbatim>\<open>strptime(s, fmt, &tm)\<close>: the returned pointer (\<open>None\<close> is \<^verbatim>\<open>NULL\<close>) and the
  \<^verbatim>\<open>struct tm\<close> as the call leaves it. After a successful parse an hour read by
  \<^verbatim>\<open>%I\<close> with a PM marker is moved to the afternoon.
\<close>

definition strptime :: "string \<Rightarrow> string \<Rightarrow> tm \<Rightarrow> string option \<times> tm" where
  "strptime s fmt t =
     (case strptime_loop conv fmt \<lparr>rp = s, tmv = t, have_I = False, is_pm = False\<rparr> of
        (False, ps) \<Rightarrow> (None, tmv ps)
      | (True, ps) \<Rightarrow>
          (Some (rp ps),
           if have_I ps \<and> is_pm ps then (tmv ps)\<lparr>tm_hour := tm_hour (tmv ps) + 12\<rparr>
           else tmv ps))"

text \<open>Decimal output of \<^verbatim>\<open>strftime\<close>: at least \<open>w\<close> characters, padded with zeros.\<close>

function dec_digits :: "nat \<Rightarrow> string" where
  "dec_digits n =
     (if n < 10 then [''0123456789'' ! n]
      else dec_digits (n div 10) @ [''0123456789'' ! (n mod 10)])"
  by pat_completeness auto
termination
  by (relation "measure id") auto

definition pad_zero :: "nat \<Rightarrow> string \<Rightarrow> string" where
  "pad_zero w s = replicate (w - length s) (CHR ''0'') @ s"

definition do_number :: "nat \<Rightarrow> int \<Rightarrow> string" where
  "do_number w v =
     (if v < 0 then CHR ''-'' # pad_zero (w - 1) (dec_digits (nat (- v)))
      else pad_zero w (dec_digits (nat v)))"

definition strftime_conv :: "char \<Rightarrow> tm \<Rightarrow> string" where
  "strftime_conv k t =
     (if k = CHR ''Y'' then do_number 1 (tm_year t + 1900)
      else if k = CHR ''m'' then do_number 2 (tm_mon t + 1)
      else if k = CHR ''d'' then do_number 2 (tm_mday t)
      else if k = CHR ''H'' then do_number 2 (tm_hour t)
      else if k = CHR ''M'' then do_number 2 (tm_min t)
      else if k = CHR ''S'' then do_number 2 (tm_sec t)
      else if k = CHR ''%'' then ''%''
      else [CHR ''%'', k])"

fun strftime_fmt :: "string \<Rightarrow> tm \<Rightarrow> string" where
  "strftime_fmt [] t = []"
| "strftime_fmt [f] t = [f]"
| "strftime_fmt (f # k # fmt) t =
     (if f = CHR ''%'' then strftime_conv k t @ strftime_fmt fmt t
      else f # strftime_fmt (k # fmt) t)"

text \<open>
  \<^verbatim>\<open>strftime(buf, maxsize, fmt, &tm)\<close>: the number of bytes written, which is 0 when
  the text and its terminator do not fit, and the text.
\<close>

definition strftime :: "nat \<Rightarrow> string \<Rightarrow> tm \<Rightarrow> nat \<times> string" where
  "strftime maxsize fmt t =
     (let s = strftime_fmt fmt t in if length s < maxsize then (length s, s) else (0, []))"

definition JSON_DATE_FORMAT :: string where
  "JSON_DATE_FORMAT = ''%Y-%m-%dT%H:%M:%SZ''"

text \<open>The table \<^verbatim>\<open>kLotusDateFmt\<close>; entry 0 is \<^verbatim>\<open>NULL\<close>.\<close>

definition kLotusDateFmt :: "string option list" where
  "kLotusDateFmt =
     [None,
      Some ''%m/%d/%Y %H:%M'',
      Some ''%m/%d/%Y %H:%M'',
      Some ''%d.%m.%Y %H:%M'',
      Some ''%Y-%m-%d %H:%M'',
      Some ''%d-%b %H:%M'',
      Some ''%d-%b-%Y %H:%M'',
      Some ''%m/%d/%Y %I:%M%p'',
      Some ''%d/%m/%Y %I:%M%p'',
      Some ''%d.%m.%Y %I:%M%p'',
      Some ''%Y-%m-%d %I:%M%p'',
      Some ''%d-%b %I:%M%p'',
      Some ''%d-%b-%Y %I:%M%p'']"

section \<open>Fatal outcomes\<close>

text \<open>
  Every \<^verbatim>\<open>errx(EXIT_FAILURE, ...)\<close> ends the process with a non-zero status before
  anything is printed on standard output. The calls are grouped by what they report:
  \<^item> \<open>LinkFormatError\<close>: "attempted to parse invalid category link", "could not
    determine type of link", "A category must have a name", "didn't expect this type to
    have a value";
  \<^item> \<open>DateFormatError\<close>: "failed to parse STF header tag", "failed to format timestamp
    for JSON";
  \<^item> \<open>ConfigError\<close>: "invalid date format requested";
  \<^item> \<open>GrammarError\<close>: "unexpected tag ... here" in every state, "unexpected state
    transition", "failed to find end-attribute tag", "invalid end-attribute tag",
    "failed to find end-category tag", "failed to find assignment type".

  \<open>NullPointer\<close> stands for handing a \<^verbatim>\<open>NULL\<close> pointer to a function that reads a
  string (\<^verbatim>\<open>strcmp\<close>, \<^verbatim>\<open>strlen\<close>, \<^verbatim>\<open>strtoul\<close>, \<^verbatim>\<open>strptime\<close>,
  \<^verbatim>\<open>json_object_new_string\<close>): the process does not survive it.
\<close>

datatype error = LinkFormatError | DateFormatError | ConfigError | GrammarError | NullPointer

section \<open>The category link parser: \<^verbatim>\<open>parse_item_category\<close>\<close>

datatype cat_type =
  STF_CAT_STANDARD | STF_CAT_EXCLUSIVE | STF_CAT_DATE | STF_CAT_UNINDEXED | STF_CAT_NUMERIC

text \<open>The string stored under the key "type" for each kind of link.\<close>

fun type_string :: "cat_type \<Rightarrow> string" where
  "type_string STF_CAT_STANDARD = ''standard''"
| "type_string STF_CAT_EXCLUSIVE = ''exclusive''"
| "type_string STF_CAT_DATE = ''date''"
| "type_string STF_CAT_UNINDEXED = ''unindexed''"
| "type_string STF_CAT_NUMERIC = ''numeric''"

text \<open>The JSON object of one link: the keys "type", "name", "shortname", "alsomatch", "value".\<close>

record link =
  link_type :: string
  link_name :: string
  link_shortname :: "string option"
  link_alsomatch :: "string list option"
  link_value :: "string option"

definition BACKSLASH :: char where
  "BACKSLASH = CHR 0x5C"

text \<open>\<^verbatim>\<open>strstr\<close>: the offset of the first occurrence of the needle.\<close>

fun strstr :: "string \<Rightarrow> string \<Rightarrow> nat option" where
  "strstr [] needle = (if needle = [] then Some 0 else None)"
| "strstr (h # hay) needle =
     (if take (length needle) (h # hay) = needle then Some 0
      else map_option Suc (strstr hay needle))"

text \<open>
  The first part of the function, up to the label \<^verbatim>\<open>parsenames\<close>: the kind of link, the
  copy \<open>names\<close> and the pointer \<open>value\<close> (\<open>None\<close> is \<^verbatim>\<open>NULL\<close>).
\<close>

definition link_kind :: "string \<Rightarrow> error + (cat_type \<times> string \<times> string option)" where
  "link_kind def =
     (let len = length def in
      if len < 2 then Inl LinkFormatError
      else if def ! (len - 1) = BACKSLASH \<and> def ! (len - 2) \<noteq> CHR ''%''
        then Inr (STF_CAT_STANDARD, take (len - 1) def, None)
      else if def ! (len - 1) = CHR ''/'' \<and> def ! (len - 2) \<noteq> CHR ''%''
        then Inr (STF_CAT_EXCLUSIVE, take (len - 1) def, None)
      else if def ! (len - 1) = CHR ''|''
              \<and> def ! (len - 2) \<noteq> CHR ''%''
              \<and> def ! (len - 2) \<noteq> CHR ''@''
              \<and> def ! (len - 2) \<noteq> CHR ''#''
        then Inr (STF_CAT_UNINDEXED, take (len - 1) def, None)
      else (case strstr def ''@|'' of
              Some i \<Rightarrow> Inr (STF_CAT_DATE, take i def, Some (drop (i + 2) def))
            | None \<Rightarrow>
                (case strstr def ''#|'' of
                   Some i \<Rightarrow> Inr (STF_CAT_NUMERIC, take i def, Some (drop (i + 2) def))
                 | None \<Rightarrow> Inl LinkFormatError)))"

text \<open>
  \<^verbatim>\<open>strtok(names, ";")\<close> and the following \<^verbatim>\<open>strtok(NULL, ";")\<close> calls return, one
  after the other, the non-empty fields between semicolons, then \<^verbatim>\<open>NULL\<close>.
\<close>

fun split_fields :: "char \<Rightarrow> string \<Rightarrow> string list" where
  "split_fields d [] = [[]]"
| "split_fields d (c # s) =
     (if c = d then [] # split_fields d s
      else (case split_fields d s of
              [] \<Rightarrow> [[c]]
            | f # fs \<Rightarrow> (c # f) # fs))"

definition strtok_all :: "string \<Rightarrow> char \<Rightarrow> string list" where
  "strtok_all s d = filter (\<lambda>t. t \<noteq> []) (split_fields d s)"

text \<open>The part after \<^verbatim>\<open>parsenames\<close>: name, short name, and the other names.\<close>

definition parsenames :: "cat_type \<Rightarrow> string \<Rightarrow> error + link" where
  "parsenames type names =
     (case strtok_all names (CHR '';'') of
        [] \<Rightarrow> Inl LinkFormatError
      | token # others \<Rightarrow>
          Inr \<lparr>link_type = type_string type,
               link_name = token,
               link_shortname = (case others of [] \<Rightarrow> None | short # _ \<Rightarrow> Some short),
               link_alsomatch = (case others of _ # a # as \<Rightarrow> Some (a # as) | _ \<Rightarrow> None),
               link_value = None\<rparr>)"

text \<open>
  The loop \<^verbatim>\<open>for (char *p = unescaped; *p = *value++;)\<close>. \<open>buf\<close> is the copy made by
  \<^verbatim>\<open>strdupa\<close> (the text and its terminator), \<open>p\<close> the write index, \<open>u\<close> the index
  that the pointer \<^verbatim>\<open>unescaped\<close> has reached, and the last argument the bytes that
  \<^verbatim>\<open>value\<close> has still to deliver. The test \<^verbatim>\<open>*p == ';'\<close> comes after \<^verbatim>\<open>p++\<close>: it reads
  the buffer at the new write index. That index never exceeds the number of bytes
  read so far, so it stays inside the copy.
\<close>

fun unescape_loop :: "string \<Rightarrow> nat \<Rightarrow> nat \<Rightarrow> string \<Rightarrow> string \<times> nat" where
  "unescape_loop buf p u [] = (buf[p := NUL], u)"
| "unescape_loop buf p u (c # src) =
     (let buf1 = buf[p := c];
          p1 = (if buf1 ! p \<noteq> CHR ''%'' then p + 1 else p);
          u1 = (if buf1 ! p1 = CHR '';'' then p1 + 1 else u)
      in unescape_loop buf1 p1 u1 src)"

text \<open>The string that \<^verbatim>\<open>unescaped\<close> points to after the loop.\<close>

definition unescape_value :: "string \<Rightarrow> string" where
  "unescape_value v =
     (case unescape_loop (v @ [NUL]) 0 0 v of (buf, u) \<Rightarrow> cstr (drop u buf))"

definition lotus_fmt :: "int \<Rightarrow> string option" where
  "lotus_fmt i = (if 0 \<le> i \<and> i < 13 then kLotusDateFmt ! nat i else None)"

text \<open>
  The \<^verbatim>\<open>if (value)\<close> block. The result of \<^verbatim>\<open>strptime\<close> is not looked at; only
  \<^verbatim>\<open>strftime\<close> returning 0 is an error.
\<close>

definition link_with_value :: "cat_type \<Rightarrow> int \<Rightarrow> string \<Rightarrow> link \<Rightarrow> error + link" where
  "link_with_value type dateformat v l =
     (let unescaped = unescape_value v in
      if type = STF_CAT_DATE then
        (case lotus_fmt dateformat of
           None \<Rightarrow> Inl NullPointer
         | Some fmt \<Rightarrow>
             (case strptime unescaped fmt zero_tm of
                (_, parsed) \<Rightarrow>
                  (case strftime 128 JSON_DATE_FORMAT parsed of
                     (n, timestamp) \<Rightarrow>
                       if n = 0 then Inl DateFormatError
                       else Inr (l\<lparr>link_value := Some timestamp\<rparr>))))
      else Inl LinkFormatError)"

text \<open>The whole function: the link that is appended to \<^verbatim>\<open>links\<close>, or the fatal error.\<close>

definition parse_item_category :: "int \<Rightarrow> string \<Rightarrow> error + link" where
  "parse_item_category dateformat def =
     (case link_kind def of
        Inl e \<Rightarrow> Inl e
      | Inr (type, names, value) \<Rightarrow>
          (case parsenames type names of
             Inl e \<Rightarrow> Inl e
           | Inr l \<Rightarrow>
               (case value of
                  None \<Rightarrow> Inr l
                | Some v \<Rightarrow> link_with_value type dateformat v l)))"

section \<open>The document builder: \<^verbatim>\<open>main\<close>\<close>

datatype stf_state =
  STF_STATE_NONE | STF_STATE_ROOT | STF_STATE_CATEGORY | STF_STATE_CATEGORY_COND
  | STF_STATE_CATEGORY_ACTIONS | STF_STATE_ITEM | STF_STATE_NOTE

text \<open>
  The JSON tree. An object keeps one value per key, and \<^verbatim>\<open>json_object_object_add\<close>
  replaces the value of a key that is already there, so the optional keys are
  \<^typ>\<open>'a option\<close> fields.
\<close>

record assignopts =
  ao_include :: "string list"
  ao_exclude :: "string list"

record category =
  cat_name :: string
  cat_attributes :: "string list"
  cat_note :: "string option"
  cat_conditions :: "assignopts option"
  cat_actions :: "assignopts option"

record item =
  item_categories :: "link list"
  item_text :: "string option"
  item_note :: "string option"

record stf_file =
  stf_timestamp :: string
  stf_categories :: "category list"
  stf_items :: "item list"

text \<open>
  The variables of \<^verbatim>\<open>main\<close>. Every object is put into its parent when it is created
  and changed afterwards through the pointer kept in \<^verbatim>\<open>main\<close>: \<^verbatim>\<open>stf\<close> is the last
  element of \<^verbatim>\<open>root\<close>, \<^verbatim>\<open>categories\<close> and \<^verbatim>\<open>items\<close> are its two arrays,
  \<^verbatim>\<open>category\<close> (with \<^verbatim>\<open>attributes\<close>) is the last element of \<^verbatim>\<open>categories\<close>,
  \<^verbatim>\<open>item\<close> (with \<^verbatim>\<open>itemcats\<close>) the last element of \<^verbatim>\<open>items\<close>, and \<^verbatim>\<open>include\<close> and
  \<^verbatim>\<open>exclude\<close> are the arrays of the object last stored under "conditions" (state
  \<^verbatim>\<open>STF_STATE_CATEGORY_COND\<close>) or "actions" (state \<^verbatim>\<open>STF_STATE_CATEGORY_ACTIONS\<close>).
  So the tree itself is the state, and a write through a pointer is an update of the
  last element.
\<close>

record builder =
  state :: stf_state
  dateformat :: int
  root :: "stf_file list"

fun upd_last :: "('a \<Rightarrow> 'a) \<Rightarrow> 'a list \<Rightarrow> 'a list" where
  "upd_last f [] = []"
| "upd_last f [x] = [f x]"
| "upd_last f (x # y # ys) = x # upd_last f (y # ys)"

definition upd_stf :: "(stf_file \<Rightarrow> stf_file) \<Rightarrow> builder \<Rightarrow> builder" where
  "upd_stf f b = b\<lparr>root := upd_last f (root b)\<rparr>"

definition upd_category :: "(category \<Rightarrow> category) \<Rightarrow> builder \<Rightarrow> builder" where
  "upd_category f b = upd_stf (\<lambda>s. s\<lparr>stf_categories := upd_last f (stf_categories s)\<rparr>) b"

definition upd_item :: "(item \<Rightarrow> item) \<Rightarrow> builder \<Rightarrow> builder" where
  "upd_item f b = upd_stf (\<lambda>s. s\<lparr>stf_items := upd_last f (stf_items s)\<rparr>) b"

definition upd_assignopts :: "(assignopts \<Rightarrow> assignopts) \<Rightarrow> builder \<Rightarrow> builder" where
  "upd_assignopts f b =
     (if state b = STF_STATE_CATEGORY_ACTIONS
      then upd_category (\<lambda>c. c\<lparr>cat_actions := map_option f (cat_actions c)\<rparr>) b
      else upd_category (\<lambda>c. c\<lparr>cat_conditions := map_option f (cat_conditions c)\<rparr>) b)"

text \<open>\<^verbatim>\<open>json_object_new_string\<close> takes the length of its argument.\<close>

definition json_object_new_string :: "string option \<Rightarrow> error + string" where
  "json_object_new_string s = (case s of None \<Rightarrow> Inl NullPointer | Some v \<Rightarrow> Inr v)"

text \<open>
  \<^verbatim>\<open>strtoul(value, NULL, 10)\<close> with a 64-bit \<^verbatim>\<open>unsigned long\<close>: white space, an
  optional sign, the decimal digits; \<^verbatim>\<open>ULONG_MAX\<close> when the digits overflow, the
  negation modulo \<open>2 ^ 64\<close> after a minus sign, 0 without digits. The assignment to
  the \<^verbatim>\<open>int\<close> variable keeps the low 32 bits (modulo \<open>2 ^ 32 = 4294967296\<close>), read
  as two's complement.
\<close>

definition ULONG_MAX :: int where
  "ULONG_MAX = 18446744073709551615"

definition strtoul :: "string \<Rightarrow> int" where
  "strtoul s =
     (let s1 = dropWhile isspace s;
          neg = (case s1 of [] \<Rightarrow> False | c # _ \<Rightarrow> c = CHR ''-'');
          s2 = (case s1 of [] \<Rightarrow> [] | c # r \<Rightarrow> if c = CHR ''-'' \<or> c = CHR ''+'' then r else s1);
          v = foldl (\<lambda>a c. a * 10 + digit_val c) 0 (takeWhile isdigit s2)
      in if v > ULONG_MAX then ULONG_MAX
         else if neg then (ULONG_MAX + 1 - v) mod (ULONG_MAX + 1)
         else v)"

definition int_of_ulong :: "int \<Rightarrow> int" where
  "int_of_ulong n =
     (let m = n mod 4294967296 in if m \<ge> 2147483648 then m - 4294967296 else m)"

text \<open>
  \<^verbatim>\<open>case STF_STATE_NONE\<close>. The \<^verbatim>\<open>struct tm date\<close> is not initialised in the source; a
  successful parse of \<^verbatim>\<open>%D;%T;002\<close> stores all six fields that are printed, so the
  start value does not show in the result (lemma \<open>header_timestamp_independent\<close>
  below) and the model starts from zeros.
\<close>

definition case_none :: "builder \<Rightarrow> string \<Rightarrow> string option \<Rightarrow> error + builder" where
  "case_none b tag value =
     (if tag = ''STF'' then
        (case value of
           None \<Rightarrow> Inl NullPointer
         | Some v \<Rightarrow>
             (case strptime v ''%D;%T;002'' zero_tm of
                (None, _) \<Rightarrow> Inl DateFormatError
              | (Some _, date) \<Rightarrow>
                  (case strftime 128 JSON_DATE_FORMAT date of
                     (n, timestamp) \<Rightarrow>
                       if n = 0 then Inl DateFormatError
                       else Inr (b\<lparr>state := STF_STATE_ROOT,
                                   root := root b @ [\<lparr>stf_timestamp = timestamp,
                                                      stf_categories = [],
                                                      stf_items = []\<rparr>]\<rparr>))))
      else Inl GrammarError)"

definition case_root :: "builder \<Rightarrow> string \<Rightarrow> string option \<Rightarrow> error + builder" where
  "case_root b tag value =
     (if tag = ''d'' then
        (case value of
           None \<Rightarrow> Inl NullPointer
         | Some v \<Rightarrow>
             (let df = int_of_ulong (strtoul v) in
              if df < 1 \<or> df > 12 then Inl ConfigError
              else Inr (b\<lparr>dateformat := df\<rparr>)))
      else if tag = ''C'' then
        (case json_object_new_string value of
           Inl e \<Rightarrow> Inl e
         | Inr name \<Rightarrow>
             Inr (upd_stf (\<lambda>s. s\<lparr>stf_categories := stf_categories s @
                     [\<lparr>cat_name = name, cat_attributes = [], cat_note = None,
                       cat_conditions = None, cat_actions = None\<rparr>]\<rparr>)
                   (b\<lparr>state := STF_STATE_CATEGORY\<rparr>)))
      else if tag = ''I'' then
        Inr (upd_stf (\<lambda>s. s\<lparr>stf_items := stf_items s @
                [\<lparr>item_categories = [], item_text = None, item_note = None\<rparr>]\<rparr>)
              (b\<lparr>state := STF_STATE_ITEM\<rparr>))
      else if tag = ''STF'' then case_none (b\<lparr>state := STF_STATE_NONE\<rparr>) tag value
      else Inl GrammarError)"

text \<open>
  The states of an open category read a second chunk in two places, so these cases
  take the input and return what is left of it.
\<close>

definition case_category ::
  "builder \<Rightarrow> string \<Rightarrow> string option \<Rightarrow> string \<Rightarrow> error + (builder \<times> string)" where
  "case_category b tag value inp =
     (if tag = ''r'' then
        (case json_object_new_string value of
           Inl e \<Rightarrow> Inl e
         | Inr attr \<Rightarrow>
             (case read_stf_chunk inp of
                None \<Rightarrow> Inl GrammarError
              | Some ((attrtag, attrval), inp') \<Rightarrow>
                  (case attrtag of
                     None \<Rightarrow> Inl NullPointer
                   | Some t \<Rightarrow>
                       if t \<noteq> '';'' \<or> attrval \<noteq> None then Inl GrammarError
                       else Inr (upd_category
                                   (\<lambda>c. c\<lparr>cat_attributes := cat_attributes c @ [attr]\<rparr>) b,
                                 inp'))))
      else if tag = ''.'' then Inr (b\<lparr>state := STF_STATE_ROOT\<rparr>, inp)
      else if tag = ''F'' then
        (case json_object_new_string value of
           Inl e \<Rightarrow> Inl e
         | Inr note \<Rightarrow> Inr (upd_category (\<lambda>c. c\<lparr>cat_note := Some note\<rparr>) b, inp))
      else if tag = ''p'' \<or> tag = ''a'' then
        (let assignopts = \<lparr>ao_include = [], ao_exclude = []\<rparr> in
         if tag = ''a''
         then Inr (upd_category (\<lambda>c. c\<lparr>cat_actions := Some assignopts\<rparr>)
                     (b\<lparr>state := STF_STATE_CATEGORY_ACTIONS\<rparr>), inp)
         else Inr (upd_category (\<lambda>c. c\<lparr>cat_conditions := Some assignopts\<rparr>)
                     (b\<lparr>state := STF_STATE_CATEGORY_COND\<rparr>), inp))
      else Inl GrammarError)"

definition case_category_opts ::
  "builder \<Rightarrow> string \<Rightarrow> string option \<Rightarrow> string \<Rightarrow> error + (builder \<times> string)" where
  "case_category_opts b tag value inp =
     (if tag = ''C'' then
        (case read_stf_chunk inp of
           None \<Rightarrow> Inl GrammarError
         | Some ((condtag, condval), inp') \<Rightarrow>
             (case condtag of
                None \<Rightarrow> Inl NullPointer
              | Some t \<Rightarrow>
                  if t = ''+'' then
                    (case json_object_new_string value of
                       Inl e \<Rightarrow> Inl e
                     | Inr v \<Rightarrow>
                         Inr (upd_assignopts (\<lambda>a. a\<lparr>ao_include := ao_include a @ [v]\<rparr>) b,
                              inp'))
                  else if t = ''-'' then
                    (case json_object_new_string value of
                       Inl e \<Rightarrow> Inl e
                     | Inr v \<Rightarrow>
                         Inr (upd_assignopts (\<lambda>a. a\<lparr>ao_exclude := ao_exclude a @ [v]\<rparr>) b,
                              inp'))
                  else Inl GrammarError))
      else if tag = '';'' then Inr (b\<lparr>state := STF_STATE_CATEGORY\<rparr>, inp)
      else Inl GrammarError)"

definition case_item :: "builder \<Rightarrow> string \<Rightarrow> string option \<Rightarrow> error + builder" where
  "case_item b tag value =
     (if tag = ''T'' then
        (case json_object_new_string value of
           Inl e \<Rightarrow> Inl e
         | Inr text \<Rightarrow> Inr (upd_item (\<lambda>i. i\<lparr>item_text := Some text\<rparr>) b))
      else if tag = ''N'' then
        (case json_object_new_string value of
           Inl e \<Rightarrow> Inl e
         | Inr note \<Rightarrow> Inr (upd_item (\<lambda>i. i\<lparr>item_note := Some note\<rparr>) b))
      else if tag = ''C'' then
        (case value of
           None \<Rightarrow> Inl NullPointer
         | Some def \<Rightarrow>
             (case parse_item_category (dateformat b) def of
                Inl e \<Rightarrow> Inl e
              | Inr l \<Rightarrow>
                  Inr (upd_item (\<lambda>i. i\<lparr>item_categories := item_categories i @ [l]\<rparr>) b)))
      else if tag = ''.'' then Inr b
      else if tag = ''!'' then Inr (b\<lparr>state := STF_STATE_ROOT\<rparr>)
      else Inl GrammarError)"

text \<open>The \<^verbatim>\<open>switch (state)\<close> on one chunk whose tag is not \<^verbatim>\<open>NULL\<close>.\<close>

definition with_input :: "string \<Rightarrow> error + builder \<Rightarrow> error + (builder \<times> string)" where
  "with_input inp r = (case r of Inl e \<Rightarrow> Inl e | Inr b \<Rightarrow> Inr (b, inp))"

fun stf_switch ::
  "stf_state \<Rightarrow> builder \<Rightarrow> string \<Rightarrow> string option \<Rightarrow> string \<Rightarrow> error + (builder \<times> string)" where
  "stf_switch STF_STATE_NONE b tag value inp = with_input inp (case_none b tag value)"
| "stf_switch STF_STATE_ROOT b tag value inp = with_input inp (case_root b tag value)"
| "stf_switch STF_STATE_CATEGORY b tag value inp = case_category b tag value inp"
| "stf_switch STF_STATE_CATEGORY_ACTIONS b tag value inp = case_category_opts b tag value inp"
| "stf_switch STF_STATE_CATEGORY_COND b tag value inp = case_category_opts b tag value inp"
| "stf_switch STF_STATE_ITEM b tag value inp = with_input inp (case_item b tag value)"
| "stf_switch STF_STATE_NOTE b tag value inp = Inl GrammarError"

text \<open>
  One round of the \<^verbatim>\<open>while\<close> loop on the chunk just read: \<^verbatim>\<open>strcmp(tag, "S")\<close>
  comes first and reads the tag; a comment leaves everything as it is.
\<close>

definition process_chunk :: "builder \<Rightarrow> chunk \<Rightarrow> string \<Rightarrow> error + (builder \<times> string)" where
  "process_chunk b ch inp =
     (case fst ch of
        None \<Rightarrow> Inl NullPointer
      | Some tag \<Rightarrow>
          if tag = ''S'' then Inr (b, inp)
          else stf_switch (state b) b tag (snd ch) inp)"

text \<open>
  The loop \<^verbatim>\<open>while (read_stf_chunk(&tag, &value) != -1)\<close>. It ends when the reader
  returns \<^verbatim>\<open>-1\<close>, with the builder as it is then, or at the first fatal error. Every
  chunk takes at least one byte from the input, so the loop terminates.
\<close>

lemma chunk_loop_length:
  "chunk_loop st tagb valb inp = Some (ch, rest) \<Longrightarrow> length rest \<le> length inp"
  by (induction st tagb valb inp rule: chunk_loop.induct)
     (auto split: if_splits list.splits)

lemma read_stf_chunk_length:
  assumes "read_stf_chunk inp = Some (ch, rest)"
  shows "length rest < length inp"
proof (cases inp)
  case Nil
  with assms show ?thesis by (simp add: read_stf_chunk_def)
next
  case (Cons c r)
  with assms obtain st tagb valb where "chunk_loop st tagb valb r = Some (ch, rest)"
    by (auto simp: read_stf_chunk_def split: if_splits)
  then have "length rest \<le> length r" by (rule chunk_loop_length)
  with Cons show ?thesis by simp
qed

lemma stf_switch_length:
  assumes "stf_switch st b tag value inp = Inr (b', inp')"
  shows "length inp' \<le> length inp"
proof (cases st)
  case STF_STATE_CATEGORY
  with assms show ?thesis
    by (auto simp: case_category_def Let_def
          split: if_splits sum.splits option.splits prod.splits
          dest!: read_stf_chunk_length)
next
  case STF_STATE_CATEGORY_COND
  with assms show ?thesis
    by (auto simp: case_category_opts_def
          split: if_splits sum.splits option.splits prod.splits
          dest!: read_stf_chunk_length)
next
  case STF_STATE_CATEGORY_ACTIONS
  with assms show ?thesis
    by (auto simp: case_category_opts_def
          split: if_splits sum.splits option.splits prod.splits
          dest!: read_stf_chunk_length)
qed (use assms in \<open>auto simp: with_input_def split: sum.splits\<close>)

lemma process_chunk_length:
  "process_chunk b ch inp = Inr (b', inp') \<Longrightarrow> length inp' \<le> length inp"
  by (auto simp: process_chunk_def split: option.splits if_splits dest: stf_switch_length)

function stfjson_loop :: "builder \<Rightarrow> string \<Rightarrow> error + builder" where
  "stfjson_loop b inp =
     (case read_stf_chunk inp of
        None \<Rightarrow> Inr b
      | Some (ch, rest) \<Rightarrow>
          (case process_chunk b ch rest of
             Inl e \<Rightarrow> Inl e
           | Inr (b', rest') \<Rightarrow> stfjson_loop b' rest'))"
  by pat_completeness auto
termination
proof (relation "measure (\<lambda>(b, inp). length inp)")
  show "wf (measure (\<lambda>(b, inp). length inp))" by simp
next
  fix b :: builder and inp :: string and x2 ch rest x2a b' rest'
  assume "read_stf_chunk inp = Some x2" "(ch, rest) = x2"
    and "process_chunk b ch rest = Inr x2a" "(b', rest') = x2a"
  then have "length rest < length inp" "length rest' \<le> length rest"
    by (auto dest: read_stf_chunk_length process_chunk_length)
  then show "((b', rest'), (b, inp)) \<in> measure (\<lambda>(b, inp). length inp)" by simp
qed

text \<open>
  \<^verbatim>\<open>main\<close>: the start values, the loop, and after it the printing of \<^verbatim>\<open>root\<close> with
  exit status 0. \<open>Inr\<close> is that document; \<open>Inl\<close> is a run that ended in a fatal
  error, with nothing printed.
\<close>

definition initial_builder :: builder where
  "initial_builder = \<lparr>state = STF_STATE_NONE, dateformat = 1, root = []\<rparr>"

definition main :: "string \<Rightarrow> error + stf_file list" where
  "main inp = (case stfjson_loop initial_builder inp of Inl e \<Rightarrow> Inl e | Inr b \<Rightarrow> Inr (root b))"

section \<open>Vocabulary of the properties\<close>

text \<open>
  The definitions of this section are not part of the program. They name what the
  properties below talk about.
\<close>

subsection \<open>Patterns of the format table\<close>

text \<open>
  A pattern of the table is a date part and a clock part with one space between them.
\<close>

definition date_layout :: "string \<Rightarrow> string" where
  "date_layout fmt = takeWhile (\<lambda>c. c \<noteq> CHR '' '') fmt"

definition clock_layout :: "string \<Rightarrow> string" where
  "clock_layout fmt = drop 1 (dropWhile (\<lambda>c. c \<noteq> CHR '' '') fmt)"

subsection \<open>Escapes\<close>

text \<open>
  The escape rule as C5 words it, not taken from the program: read from the left, a
  \<^verbatim>\<open>%\<close> makes the character after it literal. \<open>spec_ends_escaped s\<close> says that the
  last character of \<open>s\<close> is literal in this sense.
\<close>

fun spec_ends_escaped :: "string \<Rightarrow> bool" where
  "spec_ends_escaped [] = False"
| "spec_ends_escaped [c] = False"
| "spec_ends_escaped (c # d # s) =
     (if c = CHR ''%'' then s = [] \<or> spec_ends_escaped s else spec_ends_escaped (d # s))"

text \<open>
  The text that C10 describes, in the words of the claim and not taken from the
  program: every \<^verbatim>\<open>%\<close> is dropped and the character after it is kept, and the date is
  what follows the last semicolon of the result, or all of it when it has none.
\<close>

fun spec_strip_escapes :: "string \<Rightarrow> string" where
  "spec_strip_escapes [] = []"
| "spec_strip_escapes [c] = (if c = CHR ''%'' then [] else [c])"
| "spec_strip_escapes (c # d # s) =
     (if c = CHR ''%'' then d # spec_strip_escapes s else c # spec_strip_escapes (d # s))"

definition spec_date_text :: "string \<Rightarrow> string" where
  "spec_date_text v =
     (let s = spec_strip_escapes v in
      if CHR '';'' \<in> set s then rev (takeWhile (\<lambda>c. c \<noteq> CHR '';'') (rev s)) else s)"

text \<open>
  Where the loop and the claim agree: a value without \<^verbatim>\<open>%\<close> that does not begin with
  a semicolon. Then nothing is moved, the byte tested is the next byte of the text, and
  \<open>plain_scan\<close> is what the loop makes of the pointer \<^verbatim>\<open>unescaped\<close>.
\<close>

fun plain_scan :: "nat \<Rightarrow> nat \<Rightarrow> string \<Rightarrow> nat" where
  "plain_scan p u [] = u"
| "plain_scan p u (c # s) =
     plain_scan (p + 1) (if s \<noteq> [] \<and> hd s = CHR '';'' then p + 2 else u) s"

subsection \<open>Fields of a date\<close>

datatype tm_field = Sec | Min | Hour | Mday | Mon | Year

fun get_field :: "tm_field \<Rightarrow> tm \<Rightarrow> int" where
  "get_field Sec = tm_sec"
| "get_field Min = tm_min"
| "get_field Hour = tm_hour"
| "get_field Mday = tm_mday"
| "get_field Mon = tm_mon"
| "get_field Year = tm_year"

text \<open>Two parser states that differ at most in fields of the \<^verbatim>\<open>struct tm\<close> outside \<open>S\<close>.\<close>

definition same_but :: "tm_field set \<Rightarrow> pstate \<Rightarrow> pstate \<Rightarrow> bool" where
  "same_but S p q \<longleftrightarrow>
     rp p = rp q \<and> have_I p = have_I q \<and> is_pm p = is_pm q
     \<and> (\<forall>x \<in> S. get_field x (tmv p) = get_field x (tmv q))"

text \<open>
  Two results of a parsing step that agree in success, and after success in all but
  the fields outside \<open>S\<close>.
\<close>

definition paired :: "tm_field set \<Rightarrow> bool \<times> pstate \<Rightarrow> bool \<times> pstate \<Rightarrow> bool" where
  "paired S x y \<longleftrightarrow> fst x = fst y \<and> (fst x \<longrightarrow> same_but S (snd x) (snd y))"

text \<open>The fields that a conversion stores when it succeeds.\<close>

definition conv_fields :: "char \<Rightarrow> tm_field set" where
  "conv_fields k =
     (if k = CHR ''b'' \<or> k = CHR ''B'' \<or> k = CHR ''h'' \<or> k = CHR ''m'' then {Mon}
      else if k = CHR ''d'' \<or> k = CHR ''e'' then {Mday}
      else if k = CHR ''H'' \<or> k = CHR ''k'' \<or> k = CHR ''I'' \<or> k = CHR ''l'' then {Hour}
      else if k = CHR ''M'' then {Min}
      else if k = CHR ''S'' then {Sec}
      else if k = CHR ''y'' \<or> k = CHR ''Y'' then {Year}
      else if k = CHR ''D'' then {Mon, Mday, Year}
      else if k = CHR ''T'' then {Hour, Min, Sec}
      else {})"

text \<open>The fields stored, and the conversions used, by a whole format.\<close>

fun fmt_fields :: "string \<Rightarrow> tm_field set" where
  "fmt_fields [] = {}"
| "fmt_fields [f] = {}"
| "fmt_fields (f # k # fmt) =
     (if f = CHR ''%'' then conv_fields k \<union> fmt_fields fmt else fmt_fields (k # fmt))"

fun fmt_convs :: "string \<Rightarrow> char set" where
  "fmt_convs [] = {}"
| "fmt_convs [f] = {}"
| "fmt_convs (f # k # fmt) =
     (if f = CHR ''%'' then insert k (fmt_convs fmt) else fmt_convs (k # fmt))"

section \<open>Running the loop by hand\<close>

declare stfjson_loop.simps [simp del]

lemma stfjson_loop_end:
  "read_stf_chunk inp = None \<Longrightarrow> stfjson_loop b inp = Inr b"
  by (subst stfjson_loop.simps) simp

lemma stfjson_loop_step:
  "read_stf_chunk inp = Some (ch, rest) \<Longrightarrow> process_chunk b ch rest = Inr (b', rest')
     \<Longrightarrow> stfjson_loop b inp = stfjson_loop b' rest'"
  by (subst stfjson_loop.simps) simp

lemma stfjson_loop_fatal:
  "read_stf_chunk inp = Some (ch, rest) \<Longrightarrow> process_chunk b ch rest = Inl e
     \<Longrightarrow> stfjson_loop b inp = Inl e"
  by (subst stfjson_loop.simps) simp



text \<open>The header \<^verbatim>\<open>{STF}10/05/20;08:00:00;002\<close>, used in the runs below.\<close>

lemma header_tm:
  "strptime ''10/05/20;08:00:00;002'' ''%D;%T;002'' zero_tm =
     (Some [], \<lparr>tm_sec = 0, tm_min = 0, tm_hour = 8, tm_mday = 5, tm_mon = 9, tm_year = 120\<rparr>)"
  by code_simp

lemma header_timestamp:
  "strftime 128 JSON_DATE_FORMAT
     \<lparr>tm_sec = 0, tm_min = 0, tm_hour = 8, tm_mday = 5, tm_mon = 9, tm_year = 120\<rparr> =
   (20, ''2020-10-05T08:00:00Z'')"
  by code_simp

lemma header_chunk:
  "case_none b ''STF'' (Some ''10/05/20;08:00:00;002'') =
     Inr (b\<lparr>state := STF_STATE_ROOT,
            root := root b @ [\<lparr>stf_timestamp = ''2020-10-05T08:00:00Z'',
                               stf_categories = [], stf_items = []\<rparr>]\<rparr>)"
  by (simp add: case_none_def header_tm header_timestamp)

section \<open>The uninitialised header date\<close>

text \<open>
  In \<^verbatim>\<open>case STF_STATE_NONE\<close> the \<^verbatim>\<open>struct tm\<close> handed to \<^verbatim>\<open>strptime\<close> is not
  initialised. Its content cannot reach the output: whether the parse of
  \<^verbatim>\<open>%D;%T;002\<close> succeeds does not depend on it, and a successful parse leaves the same
  six fields whatever was there.
\<close>

lemma same_but_flags:
  "same_but S p q \<Longrightarrow> same_but S (p\<lparr>have_I := h\<rparr>) (q\<lparr>have_I := h\<rparr>)"
  by (simp add: same_but_def)

lemma same_but_rp:
  "same_but S p q \<Longrightarrow> same_but S (p\<lparr>rp := s\<rparr>) (q\<lparr>rp := s\<rparr>)"
  by (simp add: same_but_def)

lemma same_but_store:
  assumes "same_but S p q"
  shows "same_but (insert Sec S) (p\<lparr>tmv := (tmv p)\<lparr>tm_sec := v\<rparr>\<rparr>) (q\<lparr>tmv := (tmv q)\<lparr>tm_sec := v\<rparr>\<rparr>)"
    and "same_but (insert Min S) (p\<lparr>tmv := (tmv p)\<lparr>tm_min := v\<rparr>\<rparr>) (q\<lparr>tmv := (tmv q)\<lparr>tm_min := v\<rparr>\<rparr>)"
    and "same_but (insert Hour S) (p\<lparr>tmv := (tmv p)\<lparr>tm_hour := v\<rparr>\<rparr>) (q\<lparr>tmv := (tmv q)\<lparr>tm_hour := v\<rparr>\<rparr>)"
    and "same_but (insert Mday S) (p\<lparr>tmv := (tmv p)\<lparr>tm_mday := v\<rparr>\<rparr>) (q\<lparr>tmv := (tmv q)\<lparr>tm_mday := v\<rparr>\<rparr>)"
    and "same_but (insert Mon S) (p\<lparr>tmv := (tmv p)\<lparr>tm_mon := v\<rparr>\<rparr>) (q\<lparr>tmv := (tmv q)\<lparr>tm_mon := v\<rparr>\<rparr>)"
    and "same_but (insert Year S) (p\<lparr>tmv := (tmv p)\<lparr>tm_year := v\<rparr>\<rparr>) (q\<lparr>tmv := (tmv q)\<lparr>tm_year := v\<rparr>\<rparr>)"
proof -
  have "get_field x ((tmv p)\<lparr>tm_sec := v\<rparr>) = get_field x ((tmv q)\<lparr>tm_sec := v\<rparr>)"
       "get_field x ((tmv p)\<lparr>tm_min := v\<rparr>) = get_field x ((tmv q)\<lparr>tm_min := v\<rparr>)"
       "get_field x ((tmv p)\<lparr>tm_hour := v\<rparr>) = get_field x ((tmv q)\<lparr>tm_hour := v\<rparr>)"
       "get_field x ((tmv p)\<lparr>tm_mday := v\<rparr>) = get_field x ((tmv q)\<lparr>tm_mday := v\<rparr>)"
       "get_field x ((tmv p)\<lparr>tm_mon := v\<rparr>) = get_field x ((tmv q)\<lparr>tm_mon := v\<rparr>)"
       "get_field x ((tmv p)\<lparr>tm_year := v\<rparr>) = get_field x ((tmv q)\<lparr>tm_year := v\<rparr>)"
    if "get_field x (tmv p) = get_field x (tmv q)" for x
    using that by (cases x; simp)+
  with assms show
    "same_but (insert Sec S) (p\<lparr>tmv := (tmv p)\<lparr>tm_sec := v\<rparr>\<rparr>) (q\<lparr>tmv := (tmv q)\<lparr>tm_sec := v\<rparr>\<rparr>)"
    "same_but (insert Min S) (p\<lparr>tmv := (tmv p)\<lparr>tm_min := v\<rparr>\<rparr>) (q\<lparr>tmv := (tmv q)\<lparr>tm_min := v\<rparr>\<rparr>)"
    "same_but (insert Hour S) (p\<lparr>tmv := (tmv p)\<lparr>tm_hour := v\<rparr>\<rparr>) (q\<lparr>tmv := (tmv q)\<lparr>tm_hour := v\<rparr>\<rparr>)"
    "same_but (insert Mday S) (p\<lparr>tmv := (tmv p)\<lparr>tm_mday := v\<rparr>\<rparr>) (q\<lparr>tmv := (tmv q)\<lparr>tm_mday := v\<rparr>\<rparr>)"
    "same_but (insert Mon S) (p\<lparr>tmv := (tmv p)\<lparr>tm_mon := v\<rparr>\<rparr>) (q\<lparr>tmv := (tmv q)\<lparr>tm_mon := v\<rparr>\<rparr>)"
    "same_but (insert Year S) (p\<lparr>tmv := (tmv p)\<lparr>tm_year := v\<rparr>\<rparr>) (q\<lparr>tmv := (tmv q)\<lparr>tm_year := v\<rparr>\<rparr>)"
    by (auto simp: same_but_def)
qed

lemma conv_number_paired:
  assumes "same_but S p q"
    and "\<And>v p q. same_but S p q \<Longrightarrow> same_but S' (store v p) (store v q)"
  shows "paired S' (conv_number from to n store p) (conv_number from to n store q)"
proof -
  from assms(1) have r: "rp p = rp q" by (simp add: same_but_def)
  show ?thesis
  proof (cases "get_number from to n (rp q)")
    case None
    with r show ?thesis by (simp add: conv_number_def paired_def)
  next
    case (Some a)
    obtain val s where a: "a = (val, s)" by (cases a)
    from assms(2) [OF same_but_rp [OF assms(1)]] Some a r show ?thesis
      by (simp add: conv_number_def paired_def)
  qed
qed

lemma conv_simple_paired:
  assumes "same_but S p q" and "k \<in> set ''mdyHMS''"
  shows "paired (conv_fields k \<union> S) (conv_simple k p) (conv_simple k q)"
proof -
  note num = conv_number_paired [OF assms(1)]
  from assms(2) consider "k = CHR ''m''" | "k = CHR ''d''" | "k = CHR ''y''"
    | "k = CHR ''H''" | "k = CHR ''M''" | "k = CHR ''S''"
    by auto
  then show ?thesis
  proof cases
    case 1
    then show ?thesis
      by (simp add: conv_simple_def conv_fields_def) (intro num same_but_store)
  next
    case 2
    then show ?thesis
      by (simp add: conv_simple_def conv_fields_def) (intro num same_but_store)
  next
    case 3
    then show ?thesis
      by (simp add: conv_simple_def conv_fields_def) (intro num same_but_store)
  next
    case 4
    then show ?thesis
      by (simp add: conv_simple_def conv_fields_def) (intro num same_but_flags same_but_store)
  next
    case 5
    then show ?thesis
      by (simp add: conv_simple_def conv_fields_def) (intro num same_but_store)
  next
    case 6
    then show ?thesis
      by (simp add: conv_simple_def conv_fields_def) (intro num same_but_store)
  qed
qed

lemma strptime_loop_paired:
  assumes cv: "\<And>k S p q. k \<in> K \<Longrightarrow> same_but S p q \<Longrightarrow>
                 paired (conv_fields k \<union> S) (cv k p) (cv k q)"
  shows "same_but S p q \<Longrightarrow> fmt_convs fmt \<subseteq> K \<Longrightarrow>
         paired (fmt_fields fmt \<union> S) (strptime_loop cv fmt p) (strptime_loop cv fmt q)"
proof (induction fmt arbitrary: S p q rule: fmt_fields.induct)
  case 1
  then show ?case by (simp add: paired_def)
next
  case (2 f)
  from "2.prems"(1) have r: "rp p = rp q" by (simp add: same_but_def)
  from "2.prems"(1) r show ?case
    by (auto simp: paired_def same_but_def split: list.splits)
next
  case (3 f k fmt)
  from "3.prems"(1) have r: "rp p = rp q" by (simp add: same_but_def)
  show ?case
  proof (cases "f = CHR ''%''")
    case True
    with "3.prems"(2) have k: "k \<in> K" and sub: "fmt_convs fmt \<subseteq> K" by auto
    from cv [OF k "3.prems"(1)] have pk: "paired (conv_fields k \<union> S) (cv k p) (cv k q)" .
    obtain ok p' where p': "cv k p = (ok, p')" by (cases "cv k p")
    obtain ok' q' where q': "cv k q = (ok', q')" by (cases "cv k q")
    from pk p' q' have ok: "ok' = ok" and sb: "ok \<Longrightarrow> same_but (conv_fields k \<union> S) p' q'"
      by (auto simp: paired_def)
    show ?thesis
    proof (cases ok)
      case False
      with True p' q' ok show ?thesis by (simp add: isspace_def paired_def)
    next
      case ok_True: True
      from "3.IH"(1) [OF True sb [OF ok_True] sub]
      have "paired (fmt_fields fmt \<union> (conv_fields k \<union> S))
              (strptime_loop cv fmt p') (strptime_loop cv fmt q')" .
      moreover have "fmt_fields fmt \<union> (conv_fields k \<union> S) = fmt_fields (f # k # fmt) \<union> S"
        using True by auto
      ultimately show ?thesis
        using True p' q' ok ok_True by (simp add: isspace_def)
    qed
  next
    case False
    with "3.prems"(2) have sub: "fmt_convs (k # fmt) \<subseteq> K" by simp
    note ih = "3.IH"(2) [OF False _ sub]
    from False have ff: "fmt_fields (f # k # fmt) = fmt_fields (k # fmt)" by simp
    show ?thesis
    proof (cases "isspace f")
      case True
      from ih [OF same_but_rp [OF "3.prems"(1)], of "dropWhile isspace (rp q)"] True r
      show ?thesis unfolding ff by simp
    next
      case nsp: False
      show ?thesis
      proof (cases "rp q")
        case Nil
        with nsp False r show ?thesis by (simp add: paired_def)
      next
        case (Cons c s)
        from ih [OF same_but_rp [OF "3.prems"(1)], of s] nsp False r Cons
        show ?thesis unfolding ff by (simp add: paired_def)
      qed
    qed
  qed
qed

lemma recursive_fmt_paired:
  assumes "paired S (strptime_loop conv_simple f p) (strptime_loop conv_simple f q)"
  shows "paired S (recursive_fmt f p) (recursive_fmt f q)"
proof -
  obtain ok p' where p': "strptime_loop conv_simple f p = (ok, p')"
    by (cases "strptime_loop conv_simple f p")
  obtain ok' q' where q': "strptime_loop conv_simple f q = (ok', q')"
    by (cases "strptime_loop conv_simple f q")
  from assms p' q' have ok: "ok' = ok" and sb: "ok \<Longrightarrow> same_but S p' q'"
    by (simp_all add: paired_def)
  show ?thesis
  proof (cases ok)
    case True
    with p' q' ok sb show ?thesis by (simp add: recursive_fmt_def paired_def)
  next
    case False
    with p' q' ok show ?thesis by (simp add: recursive_fmt_def paired_def)
  qed
qed

lemma conv_paired:
  assumes "k \<in> set ''DT''" and "same_but S p q"
  shows "paired (conv_fields k \<union> S) (conv k p) (conv k q)"
proof -
  have cs: "\<And>k S p q. k \<in> set ''mdyHMS'' \<Longrightarrow> same_but S p q \<Longrightarrow>
              paired (conv_fields k \<union> S) (conv_simple k p) (conv_simple k q)"
    by (rule conv_simple_paired)
  from assms(1) consider "k = CHR ''D''" | "k = CHR ''T''" by auto
  then show ?thesis
  proof cases
    case 1
    from strptime_loop_paired [of "set ''mdyHMS''" conv_simple S p q "''%m/%d/%y''",
        OF cs assms(2)]
    have "paired (fmt_fields ''%m/%d/%y'' \<union> S)
            (strptime_loop conv_simple ''%m/%d/%y'' p) (strptime_loop conv_simple ''%m/%d/%y'' q)"
      by simp
    moreover have "fmt_fields ''%m/%d/%y'' = conv_fields (CHR ''D'')"
      by (auto simp: conv_fields_def)
    ultimately show ?thesis using 1
      by (simp add: conv_def recursive_fmt_paired)
  next
    case 2
    from strptime_loop_paired [of "set ''mdyHMS''" conv_simple S p q "''%H:%M:%S''",
        OF cs assms(2)]
    have "paired (fmt_fields ''%H:%M:%S'' \<union> S)
            (strptime_loop conv_simple ''%H:%M:%S'' p) (strptime_loop conv_simple ''%H:%M:%S'' q)"
      by simp
    moreover have "fmt_fields ''%H:%M:%S'' = conv_fields (CHR ''T'')"
      by (auto simp: conv_fields_def)
    ultimately show ?thesis using 2
      by (simp add: conv_def recursive_fmt_paired)
  qed
qed

lemma header_date_independent:
  "fst (strptime v ''%D;%T;002'' t') = fst (strptime v ''%D;%T;002'' t)
   \<and> (fst (strptime v ''%D;%T;002'' t) \<noteq> None \<longrightarrow>
        strptime v ''%D;%T;002'' t' = strptime v ''%D;%T;002'' t)"
proof -
  let ?p = "\<lparr>rp = v, tmv = t, have_I = False, is_pm = False\<rparr>"
  let ?q = "\<lparr>rp = v, tmv = t', have_I = False, is_pm = False\<rparr>"
  have s: "same_but {} ?p ?q"
    by (simp add: same_but_def)
  from strptime_loop_paired [of "set ''DT''" conv "{}" ?p ?q "''%D;%T;002''", OF conv_paired s]
  have "paired (fmt_fields ''%D;%T;002'' \<union> {})
          (strptime_loop conv ''%D;%T;002'' ?p) (strptime_loop conv ''%D;%T;002'' ?q)"
    by simp
  moreover have "fmt_fields ''%D;%T;002'' \<union> {} = {Sec, Min, Hour, Mday, Mon, Year}"
    by (auto simp: conv_fields_def)
  ultimately
  have pr: "paired {Sec, Min, Hour, Mday, Mon, Year}
          (strptime_loop conv ''%D;%T;002'' ?p) (strptime_loop conv ''%D;%T;002'' ?q)"
    by simp
  obtain ok p' where p': "strptime_loop conv ''%D;%T;002'' ?p = (ok, p')"
    by (cases "strptime_loop conv ''%D;%T;002'' ?p")
  obtain ok' q' where q': "strptime_loop conv ''%D;%T;002'' ?q = (ok', q')"
    by (cases "strptime_loop conv ''%D;%T;002'' ?q")
  from pr p' q' have ok: "ok' = ok"
    and sb: "ok \<Longrightarrow> same_but {Sec, Min, Hour, Mday, Mon, Year} p' q'"
    by (auto simp: paired_def)
  show ?thesis
  proof (cases ok)
    case False
    with p' q' ok show ?thesis by (simp add: strptime_def)
  next
    case True
    from sb [OF True] have "rp p' = rp q'" "have_I p' = have_I q'" "is_pm p' = is_pm q'"
      and "tmv p' = tmv q'"
      by (auto simp: same_but_def intro: tm.equality)
    with True p' q' ok show ?thesis by (simp add: strptime_def)
  qed
qed

lemma header_timestamp_independent:
  "(case strptime v ''%D;%T;002'' t of
      (None, _) \<Rightarrow> None
    | (Some _, date) \<Rightarrow> Some (strftime 128 JSON_DATE_FORMAT date)) =
   (case strptime v ''%D;%T;002'' zero_tm of
      (None, _) \<Rightarrow> None
    | (Some _, date) \<Rightarrow> Some (strftime 128 JSON_DATE_FORMAT date))"
proof (cases "fst (strptime v ''%D;%T;002'' zero_tm)")
  case None
  with header_date_independent [of v t zero_tm]
  have "fst (strptime v ''%D;%T;002'' t) = None" by simp
  with None show ?thesis
    by (cases "strptime v ''%D;%T;002'' t"; cases "strptime v ''%D;%T;002'' zero_tm") simp
next
  case (Some r)
  with header_date_independent [of v t zero_tm]
  have "strptime v ''%D;%T;002'' t = strptime v ''%D;%T;002'' zero_tm" by simp
  then show ?thesis by simp
qed

section \<open>End of input\<close>




section \<open>Unparsed dates\<close>

lemma lotus_fmt_1: "lotus_fmt 1 = Some ''%m/%d/%Y %H:%M''"
  by (simp add: lotus_fmt_def kLotusDateFmt_def)

lemma lotus_fmt_3: "lotus_fmt 3 = Some ''%d.%m.%Y %H:%M''"
  by (simp add: lotus_fmt_def kLotusDateFmt_def)

lemma due_names:
  "parsenames STF_CAT_DATE ''Due'' =
     Inr \<lparr>link_type = ''date'', link_name = ''Due'', link_shortname = None,
          link_alsomatch = None, link_value = None\<rparr>"
  by code_simp

lemma strftime_1430:
  "strftime 128 JSON_DATE_FORMAT
     \<lparr>tm_sec = 0, tm_min = 30, tm_hour = 14, tm_mday = 5, tm_mon = 9, tm_year = 120\<rparr> =
   (20, ''2020-10-05T14:30:00Z'')"
  by code_simp

lemma strftime_zero:
  "strftime 128 JSON_DATE_FORMAT zero_tm = (20, ''1900-01-00T00:00:00Z'')"
  by code_simp

text \<open>
  C2 does not hold of the code. In \<^verbatim>\<open>parse_item_category\<close> the result of
  \<^verbatim>\<open>strptime\<close> is dropped, so a text that does not match the selected pattern leaves
  \<^verbatim>\<open>parsed\<close> as far as the parse got, and \<^verbatim>\<open>strftime\<close> prints it: \<^verbatim>\<open>garbage\<close> gives
  the all-zero date, \<^verbatim>\<open>10/05/2020\<close> without a time gives midnight. The header path
  tests the same result against \<^verbatim>\<open>NULL\<close> and stops the run.
\<close>

theorem unparsed_date_is_printed:
  "fst (strptime ''garbage'' ''%m/%d/%Y %H:%M'' zero_tm) = None
   \<and> parse_item_category 1 ''Due@|garbage'' =
       Inr \<lparr>link_type = ''date'', link_name = ''Due'', link_shortname = None,
            link_alsomatch = None, link_value = Some ''1900-01-00T00:00:00Z''\<rparr>
   \<and> fst (strptime ''10/05/2020'' ''%m/%d/%Y %H:%M'' zero_tm) = None
   \<and> parse_item_category 1 ''Due@|10/05/2020'' =
       Inr \<lparr>link_type = ''date'', link_name = ''Due'', link_shortname = None,
            link_alsomatch = None, link_value = Some ''2020-10-05T00:00:00Z''\<rparr>
   \<and> case_none b ''STF'' (Some ''garbage'') = Inl DateFormatError"
proof -
  have k1: "link_kind ''Due@|garbage'' = Inr (STF_CAT_DATE, ''Due'', Some ''garbage'')"
    by code_simp
  have u1: "unescape_value ''garbage'' = ''garbage''"
    by code_simp
  have t1: "strptime ''garbage'' ''%m/%d/%Y %H:%M'' zero_tm = (None, zero_tm)"
    by code_simp
  have k2: "link_kind ''Due@|10/05/2020'' = Inr (STF_CAT_DATE, ''Due'', Some ''10/05/2020'')"
    by code_simp
  have u2: "unescape_value ''10/05/2020'' = ''10/05/2020''"
    by code_simp
  have t2: "strptime ''10/05/2020'' ''%m/%d/%Y %H:%M'' zero_tm =
      (None, \<lparr>tm_sec = 0, tm_min = 0, tm_hour = 0, tm_mday = 5, tm_mon = 9, tm_year = 120\<rparr>)"
    by code_simp
  have s2: "strftime 128 JSON_DATE_FORMAT
      \<lparr>tm_sec = 0, tm_min = 0, tm_hour = 0, tm_mday = 5, tm_mon = 9, tm_year = 120\<rparr> =
      (20, ''2020-10-05T00:00:00Z'')"
    by code_simp
  have h: "strptime ''garbage'' ''%D;%T;002'' zero_tm = (None, zero_tm)"
    by code_simp
  have p1: "parse_item_category 1 ''Due@|garbage'' =
       Inr \<lparr>link_type = ''date'', link_name = ''Due'', link_shortname = None,
            link_alsomatch = None, link_value = Some ''1900-01-00T00:00:00Z''\<rparr>"
    by (simp add: parse_item_category_def k1 due_names link_with_value_def u1 lotus_fmt_1 t1
          strftime_zero)
  have p2: "parse_item_category 1 ''Due@|10/05/2020'' =
       Inr \<lparr>link_type = ''date'', link_name = ''Due'', link_shortname = None,
            link_alsomatch = None, link_value = Some ''2020-10-05T00:00:00Z''\<rparr>"
    by (simp add: parse_item_category_def k2 due_names link_with_value_def u2 lotus_fmt_1 t2 s2)
  have c: "case_none b ''STF'' (Some ''garbage'') = Inl DateFormatError"
    by (simp add: case_none_def h)
  from p1 p2 c show ?thesis by (simp add: t1 t2)
qed

section \<open>The scope of the date format\<close>

lemma due_link_format_3:
  "parse_item_category 3 ''Due@|05.10.2020 14:30'' =
     Inr \<lparr>link_type = ''date'', link_name = ''Due'', link_shortname = None,
          link_alsomatch = None, link_value = Some ''2020-10-05T14:30:00Z''\<rparr>"
proof -
  have k: "link_kind ''Due@|05.10.2020 14:30'' =
             Inr (STF_CAT_DATE, ''Due'', Some ''05.10.2020 14:30'')"
    by code_simp
  have u: "unescape_value ''05.10.2020 14:30'' = ''05.10.2020 14:30''"
    by code_simp
  have t: "strptime ''05.10.2020 14:30'' ''%d.%m.%Y %H:%M'' zero_tm =
     (Some [], \<lparr>tm_sec = 0, tm_min = 30, tm_hour = 14, tm_mday = 5, tm_mon = 9, tm_year = 120\<rparr>)"
    by code_simp
  show ?thesis
    by (simp add: parse_item_category_def k due_names link_with_value_def u lotus_fmt_3 t
          strftime_1430)
qed

text \<open>
  C3, as stated, fails: in this input the first file sets the format to 3 and the second
  file has no \<^verbatim>\<open>d\<close> tag, yet its date \<^verbatim>\<open>05.10.2020 14:30\<close> is read day first, by
  pattern 3. Pattern 1 would stop at the first full stop and leave the year 1900.
\<close>

theorem second_file_keeps_format_counterexample:
  "main ''{STF}10/05/20;08:00:00;002{d}3{STF}10/05/20;08:00:00;002{I}{C}Due@|05.10.2020 14:30{!}'' =
     Inr [\<lparr>stf_timestamp = ''2020-10-05T08:00:00Z'', stf_categories = [], stf_items = []\<rparr>,
          \<lparr>stf_timestamp = ''2020-10-05T08:00:00Z'', stf_categories = [],
           stf_items = [\<lparr>item_categories =
               [\<lparr>link_type = ''date'', link_name = ''Due'', link_shortname = None,
                 link_alsomatch = None, link_value = Some ''2020-10-05T14:30:00Z''\<rparr>],
             item_text = None, item_note = None\<rparr>]\<rparr>]
   \<and> parse_item_category 1 ''Due@|05.10.2020 14:30'' =
     Inr \<lparr>link_type = ''date'', link_name = ''Due'', link_shortname = None,
          link_alsomatch = None, link_value = Some ''1900-05-00T00:00:00Z''\<rparr>"
proof -
  let ?f = "\<lparr>stf_timestamp = ''2020-10-05T08:00:00Z'', stf_categories = [], stf_items = []\<rparr>"
  let ?l = "\<lparr>link_type = ''date'', link_name = ''Due'', link_shortname = None,
             link_alsomatch = None, link_value = Some ''2020-10-05T14:30:00Z''\<rparr>"
  let ?b1 = "\<lparr>state = STF_STATE_ROOT, dateformat = 1, root = [?f]\<rparr>"
  let ?b2 = "\<lparr>state = STF_STATE_ROOT, dateformat = 3, root = [?f]\<rparr>"
  let ?b3 = "\<lparr>state = STF_STATE_ROOT, dateformat = 3, root = [?f, ?f]\<rparr>"
  let ?b4 = "\<lparr>state = STF_STATE_ITEM, dateformat = 3, root = [?f,
     ?f\<lparr>stf_items := [\<lparr>item_categories = [], item_text = None, item_note = None\<rparr>]\<rparr>]\<rparr>"
  let ?b5 = "\<lparr>state = STF_STATE_ITEM, dateformat = 3, root = [?f,
     ?f\<lparr>stf_items := [\<lparr>item_categories = [?l], item_text = None, item_note = None\<rparr>]\<rparr>]\<rparr>"
  let ?b6 = "\<lparr>state = STF_STATE_ROOT, dateformat = 3, root = [?f,
     ?f\<lparr>stf_items := [\<lparr>item_categories = [?l], item_text = None, item_note = None\<rparr>]\<rparr>]\<rparr>"
  let ?hdr = "''10/05/20;08:00:00;002''"
  let ?i2 = "''{d}3{STF}10/05/20;08:00:00;002{I}{C}Due@|05.10.2020 14:30{!}''"
  let ?i3 = "''{STF}10/05/20;08:00:00;002{I}{C}Due@|05.10.2020 14:30{!}''"
  let ?i4 = "''{I}{C}Due@|05.10.2020 14:30{!}''"
  let ?i5 = "''{C}Due@|05.10.2020 14:30{!}''"
  let ?i6 = "''{!}''"
  have r1: "read_stf_chunk (''{STF}10/05/20;08:00:00;002'' @ ?i2) =
              Some ((Some ''STF'', Some ?hdr), ?i2)"
    by code_simp
  have r2: "read_stf_chunk ?i2 = Some ((Some ''d'', Some ''3''), ?i3)"
    by code_simp
  have r3: "read_stf_chunk ?i3 = Some ((Some ''STF'', Some ?hdr), ?i4)"
    by code_simp
  have r4: "read_stf_chunk ?i4 = Some ((Some ''I'', None), ?i5)"
    by code_simp
  have r5: "read_stf_chunk ?i5 = Some ((Some ''C'', Some ''Due@|05.10.2020 14:30''), ?i6)"
    by code_simp
  have r6: "read_stf_chunk ?i6 = Some ((Some ''!'', None), [])"
    by code_simp
  have r7: "read_stf_chunk [] = None"
    by code_simp
  have p1: "process_chunk initial_builder (Some ''STF'', Some ?hdr) ?i2 = Inr (?b1, ?i2)"
    by (simp add: process_chunk_def initial_builder_def with_input_def header_chunk)
  have p2: "process_chunk ?b1 (Some ''d'', Some ''3'') ?i3 = Inr (?b2, ?i3)"
    by code_simp
  have p3: "process_chunk ?b2 (Some ''STF'', Some ?hdr) ?i4 = Inr (?b3, ?i4)"
    by (simp add: process_chunk_def with_input_def case_root_def header_chunk)
  have p4: "process_chunk ?b3 (Some ''I'', None) ?i5 = Inr (?b4, ?i5)"
    by code_simp
  have p5: "process_chunk ?b4 (Some ''C'', Some ''Due@|05.10.2020 14:30'') ?i6 = Inr (?b5, ?i6)"
    by (simp add: process_chunk_def with_input_def case_item_def due_link_format_3 upd_item_def
          upd_stf_def)
  have p6: "process_chunk ?b5 (Some ''!'', None) [] = Inr (?b6, [])"
    by code_simp
  have run: "main (''{STF}10/05/20;08:00:00;002'' @ ?i2) = Inr (root ?b6)"
    unfolding main_def
    using stfjson_loop_step [OF r1 p1] stfjson_loop_step [OF r2 p2] stfjson_loop_step [OF r3 p3]
      stfjson_loop_step [OF r4 p4] stfjson_loop_step [OF r5 p5] stfjson_loop_step [OF r6 p6]
      stfjson_loop_end [OF r7, of ?b6]
    by simp
  have k: "link_kind ''Due@|05.10.2020 14:30'' =
             Inr (STF_CAT_DATE, ''Due'', Some ''05.10.2020 14:30'')"
    by code_simp
  have u: "unescape_value ''05.10.2020 14:30'' = ''05.10.2020 14:30''"
    by code_simp
  have t: "strptime ''05.10.2020 14:30'' ''%m/%d/%Y %H:%M'' zero_tm =
     (None, \<lparr>tm_sec = 0, tm_min = 0, tm_hour = 0, tm_mday = 0, tm_mon = 4, tm_year = 0\<rparr>)"
    by code_simp
  have f: "strftime 128 JSON_DATE_FORMAT
      \<lparr>tm_sec = 0, tm_min = 0, tm_hour = 0, tm_mday = 0, tm_mon = 4, tm_year = 0\<rparr> =
      (20, ''1900-05-00T00:00:00Z'')"
    by code_simp
  have one: "parse_item_category 1 ''Due@|05.10.2020 14:30'' =
     Inr \<lparr>link_type = ''date'', link_name = ''Due'', link_shortname = None,
          link_alsomatch = None, link_value = Some ''1900-05-00T00:00:00Z''\<rparr>"
    by (simp add: parse_item_category_def k due_names link_with_value_def u lotus_fmt_1 t f)
  from run one show ?thesis
    by simp
qed

lemma upd_stf_fields [simp]:
  "dateformat (upd_stf f b) = dateformat b" "state (upd_stf f b) = state b"
  by (simp_all add: upd_stf_def)

lemma upd_category_fields [simp]:
  "dateformat (upd_category f b) = dateformat b" "state (upd_category f b) = state b"
  by (simp_all add: upd_category_def)

lemma upd_item_fields [simp]:
  "dateformat (upd_item f b) = dateformat b" "state (upd_item f b) = state b"
  by (simp_all add: upd_item_def)

lemma upd_assignopts_fields [simp]:
  "dateformat (upd_assignopts f b) = dateformat b" "state (upd_assignopts f b) = state b"
  by (simp_all add: upd_assignopts_def)

lemma case_none_dateformat:
  "case_none b tag value = Inr b' \<Longrightarrow> dateformat b' = dateformat b"
  by (auto simp: case_none_def split: if_splits option.splits prod.splits)

lemma case_root_dateformat:
  "case_root b tag value = Inr b' \<Longrightarrow> tag \<noteq> ''d'' \<Longrightarrow> dateformat b' = dateformat b"
  by (auto simp: case_root_def json_object_new_string_def
        split: if_splits option.splits sum.splits dest!: case_none_dateformat)

lemma case_category_dateformat:
  "case_category b tag value inp = Inr (b', inp') \<Longrightarrow> dateformat b' = dateformat b"
  by (auto simp: case_category_def Let_def split: if_splits option.splits sum.splits prod.splits)

lemma case_category_opts_dateformat:
  "case_category_opts b tag value inp = Inr (b', inp') \<Longrightarrow> dateformat b' = dateformat b"
  by (auto simp: case_category_opts_def split: if_splits option.splits sum.splits prod.splits)

lemma case_item_dateformat:
  "case_item b tag value = Inr b' \<Longrightarrow> dateformat b' = dateformat b"
  by (auto simp: case_item_def split: if_splits option.splits sum.splits)

lemma stf_switch_dateformat:
  assumes "stf_switch st b tag value inp = Inr (b', inp')"
    and "st \<noteq> STF_STATE_ROOT \<or> tag \<noteq> ''d''"
  shows "dateformat b' = dateformat b"
  using assms
  by (cases st)
     (auto simp: with_input_def split: sum.splits
        dest: case_none_dateformat case_root_dateformat case_category_dateformat
          case_category_opts_dateformat case_item_dateformat)

text \<open>
  C3, amended: the date format belongs to the run, not to the file. It is 1 when
  \<^verbatim>\<open>main\<close> starts, and a chunk that the builder accepts leaves it as it was unless the
  chunk is a \<^verbatim>\<open>d\<close> tag met in state \<^verbatim>\<open>STF_STATE_ROOT\<close>. An \<^verbatim>\<open>STF\<close> header, the first
  or a later one, therefore starts its file record with the format that was in force
  before it.
\<close>

theorem dateformat_changed_by_d_only:
  "dateformat initial_builder = 1
   \<and> (process_chunk b ch inp = Inr (b', inp') \<longrightarrow>
        (state b \<noteq> STF_STATE_ROOT \<or> fst ch \<noteq> Some ''d'') \<longrightarrow>
        dateformat b' = dateformat b)"
proof -
  have "dateformat b' = dateformat b"
    if "process_chunk b ch inp = Inr (b', inp')"
      and "state b \<noteq> STF_STATE_ROOT \<or> fst ch \<noteq> Some ''d''"
    using that
    by (auto simp: process_chunk_def split: option.splits if_splits dest: stf_switch_dateformat)
  then show ?thesis by (simp add: initial_builder_def)
qed

theorem dateformat_changed_by_d_only_witness:
  "process_chunk \<lparr>state = STF_STATE_ROOT, dateformat = 3, root = []\<rparr>
     (Some ''STF'', Some ''10/05/20;08:00:00;002'') [] =
     Inr (\<lparr>state = STF_STATE_ROOT, dateformat = 3, root =
            [\<lparr>stf_timestamp = ''2020-10-05T08:00:00Z'', stf_categories = [], stf_items = []\<rparr>]\<rparr>, [])
   \<and> fst (Some ''STF'', Some ''10/05/20;08:00:00;002'') \<noteq> Some ''d''
   \<and> dateformat \<lparr>state = STF_STATE_ROOT, dateformat = 3, root =
            [\<lparr>stf_timestamp = ''2020-10-05T08:00:00Z'', stf_categories = [], stf_items = []\<rparr>]\<rparr>
       = dateformat \<lparr>state = STF_STATE_ROOT, dateformat = 3, root = []\<rparr>"
proof -
  let ?b = "\<lparr>state = STF_STATE_ROOT, dateformat = 3, root = []\<rparr>"
  let ?b' = "\<lparr>state = STF_STATE_ROOT, dateformat = 3, root =
            [\<lparr>stf_timestamp = ''2020-10-05T08:00:00Z'', stf_categories = [], stf_items = []\<rparr>]\<rparr>"
  have p: "process_chunk ?b (Some ''STF'', Some ''10/05/20;08:00:00;002'') [] = Inr (?b', [])"
    by (simp add: process_chunk_def with_input_def case_root_def header_chunk)
  with dateformat_changed_by_d_only
         [of ?b "(Some ''STF'', Some ''10/05/20;08:00:00;002'')" "[]" ?b' "[]"]
  show ?thesis by simp
qed

section \<open>The format table\<close>

text \<open>
  C4 does not hold of the code. The entries 7, 9, 10, 11 and 12 have the date part of
  the entries 1, 3, 4, 5 and 6, as the claim says. The pair 2 and 8 does not: entry 2
  repeats entry 1, month first, and entry 8 reads the day first. So the link
  \<^verbatim>\<open>Due@|10/05/2020 02:30PM\<close> read with format 8 is the 10th of May, where the same date
  read with format 2 is the 5th of October.
\<close>

theorem entry_8_reads_day_first:
  "map_option date_layout (lotus_fmt 7) = map_option date_layout (lotus_fmt 1)
   \<and> map_option date_layout (lotus_fmt 9) = map_option date_layout (lotus_fmt 3)
   \<and> map_option date_layout (lotus_fmt 10) = map_option date_layout (lotus_fmt 4)
   \<and> map_option date_layout (lotus_fmt 11) = map_option date_layout (lotus_fmt 5)
   \<and> map_option date_layout (lotus_fmt 12) = map_option date_layout (lotus_fmt 6)
   \<and> map (\<lambda>i. map_option clock_layout (lotus_fmt i)) [7, 8, 9, 10, 11, 12] =
       [Some ''%I:%M%p'', Some ''%I:%M%p'', Some ''%I:%M%p'', Some ''%I:%M%p'',
        Some ''%I:%M%p'', Some ''%I:%M%p'']
   \<and> lotus_fmt 2 = lotus_fmt 1
   \<and> map_option date_layout (lotus_fmt 2) = Some ''%m/%d/%Y''
   \<and> map_option date_layout (lotus_fmt 8) = Some ''%d/%m/%Y''
   \<and> parse_item_category 2 ''Due@|10/05/2020 14:30'' =
       Inr \<lparr>link_type = ''date'', link_name = ''Due'', link_shortname = None,
            link_alsomatch = None, link_value = Some ''2020-10-05T14:30:00Z''\<rparr>
   \<and> parse_item_category 8 ''Due@|10/05/2020 02:30PM'' =
       Inr \<lparr>link_type = ''date'', link_name = ''Due'', link_shortname = None,
            link_alsomatch = None, link_value = Some ''2020-05-10T14:30:00Z''\<rparr>"
proof -
  have f: "lotus_fmt 8 = Some ''%d/%m/%Y %I:%M%p''" "lotus_fmt 2 = Some ''%m/%d/%Y %H:%M''"
    by (simp_all add: lotus_fmt_def kLotusDateFmt_def)
  have k2: "link_kind ''Due@|10/05/2020 14:30'' =
      Inr (STF_CAT_DATE, ''Due'', Some ''10/05/2020 14:30'')"
    by code_simp
  have u2: "unescape_value ''10/05/2020 14:30'' = ''10/05/2020 14:30''"
    by code_simp
  have t2: "strptime ''10/05/2020 14:30'' ''%m/%d/%Y %H:%M'' zero_tm =
      (Some [], \<lparr>tm_sec = 0, tm_min = 30, tm_hour = 14, tm_mday = 5, tm_mon = 9, tm_year = 120\<rparr>)"
    by code_simp
  have k8: "link_kind ''Due@|10/05/2020 02:30PM'' =
      Inr (STF_CAT_DATE, ''Due'', Some ''10/05/2020 02:30PM'')"
    by code_simp
  have u8: "unescape_value ''10/05/2020 02:30PM'' = ''10/05/2020 02:30PM''"
    by code_simp
  have t8: "strptime ''10/05/2020 02:30PM'' ''%d/%m/%Y %I:%M%p'' zero_tm =
      (Some [], \<lparr>tm_sec = 0, tm_min = 30, tm_hour = 14, tm_mday = 10, tm_mon = 4, tm_year = 120\<rparr>)"
    by code_simp
  have s8: "strftime 128 JSON_DATE_FORMAT
      \<lparr>tm_sec = 0, tm_min = 30, tm_hour = 14, tm_mday = 10, tm_mon = 4, tm_year = 120\<rparr> =
      (20, ''2020-05-10T14:30:00Z'')"
    by code_simp
  have p2: "parse_item_category 2 ''Due@|10/05/2020 14:30'' =
       Inr \<lparr>link_type = ''date'', link_name = ''Due'', link_shortname = None,
            link_alsomatch = None, link_value = Some ''2020-10-05T14:30:00Z''\<rparr>"
    by (simp add: parse_item_category_def k2 due_names link_with_value_def u2 f t2 strftime_1430)
  have p8: "parse_item_category 8 ''Due@|10/05/2020 02:30PM'' =
       Inr \<lparr>link_type = ''date'', link_name = ''Due'', link_shortname = None,
            link_alsomatch = None, link_value = Some ''2020-05-10T14:30:00Z''\<rparr>"
    by (simp add: parse_item_category_def k8 due_names link_with_value_def u8 f t8 s8)
  have tab: "map_option date_layout (lotus_fmt 7) = map_option date_layout (lotus_fmt 1)
   \<and> map_option date_layout (lotus_fmt 9) = map_option date_layout (lotus_fmt 3)
   \<and> map_option date_layout (lotus_fmt 10) = map_option date_layout (lotus_fmt 4)
   \<and> map_option date_layout (lotus_fmt 11) = map_option date_layout (lotus_fmt 5)
   \<and> map_option date_layout (lotus_fmt 12) = map_option date_layout (lotus_fmt 6)
   \<and> map (\<lambda>i. map_option clock_layout (lotus_fmt i)) [7, 8, 9, 10, 11, 12] =
       [Some ''%I:%M%p'', Some ''%I:%M%p'', Some ''%I:%M%p'', Some ''%I:%M%p'',
        Some ''%I:%M%p'', Some ''%I:%M%p'']
   \<and> lotus_fmt 2 = lotus_fmt 1
   \<and> map_option date_layout (lotus_fmt 2) = Some ''%m/%d/%Y''
   \<and> map_option date_layout (lotus_fmt 8) = Some ''%d/%m/%Y''"
    by (simp add: lotus_fmt_def kLotusDateFmt_def date_layout_def clock_layout_def)
  from tab p2 p8 show ?thesis
    by blast
qed

section \<open>The kind of a link\<close>

lemma strstr_Some:
  "strstr h n = Some i \<Longrightarrow> h = take i h @ n @ drop (i + length n) h"
proof (induction h arbitrary: i)
  case Nil
  then show ?case by (simp split: if_splits)
next
  case (Cons a t)
  show ?case
  proof (cases "take (length n) (a # t) = n")
    case True
    with Cons.prems have "i = 0" by simp
    with True show ?thesis by (metis add_0 append_take_drop_id take_0 append_Nil)
  next
    case False
    with Cons.prems obtain j where j: "strstr t n = Some j" "i = Suc j" by auto
    from Cons.IH [OF j(1)] j(2) show ?thesis by simp
  qed
qed

lemma strstr_None:
  "strstr h n = None \<Longrightarrow> h \<noteq> xs @ n @ ys"
proof (induction h arbitrary: xs)
  case Nil
  then show ?case by (simp split: if_splits)
next
  case (Cons a t)
  from Cons.prems have ne: "take (length n) (a # t) \<noteq> n" and rec: "strstr t n = None"
    by (auto split: if_splits)
  show ?case
  proof (cases xs)
    case Nil
    with ne show ?thesis by auto
  next
    case (Cons b xs')
    with Cons.IH [OF rec, of xs'] show ?thesis by auto
  qed
qed

lemma strstr_contains:
  "h = xs @ n @ ys \<Longrightarrow> \<exists>i. strstr h n = Some i \<and> h = take i h @ n @ drop (i + length n) h"
  by (cases "strstr h n") (auto dest: strstr_None strstr_Some)

lemma last_nth: "xs \<noteq> [] \<Longrightarrow> xs ! (length xs - Suc 0) = last xs"
  by (simp add: last_conv_nth)

lemma parse_item_category_type:
  "link_kind def = Inr (ty, names, value) \<Longrightarrow> parse_item_category df def = Inr l
     \<Longrightarrow> link_type l = type_string ty"
  by (auto simp: parse_item_category_def parsenames_def link_with_value_def Let_def
        split: sum.splits list.splits option.splits if_splits prod.splits)

lemma link_kind_date:
  assumes "2 \<le> length def"
    and "\<not> (def ! (length def - 1) = BACKSLASH \<and> def ! (length def - 2) \<noteq> CHR ''%'')"
    and "\<not> (def ! (length def - 1) = CHR ''/'' \<and> def ! (length def - 2) \<noteq> CHR ''%'')"
    and "\<not> (def ! (length def - 1) = CHR ''|''
            \<and> def ! (length def - 2) \<notin> {CHR ''%'', CHR ''@'', CHR ''#''})"
    and "strstr def ''@|'' = Some i"
  shows "link_kind def = Inr (STF_CAT_DATE, take i def, Some (drop (i + 2) def))"
  using assms unfolding link_kind_def Let_def by auto

lemma due_kind_1430:
  "link_kind ''Due@|10/05/2020 14:30'' = Inr (STF_CAT_DATE, ''Due'', Some ''10/05/2020 14:30'')"
  by code_simp

lemma due_link_1430:
  "parse_item_category 1 ''Due@|10/05/2020 14:30'' =
     Inr \<lparr>link_type = ''date'', link_name = ''Due'', link_shortname = None,
          link_alsomatch = None, link_value = Some ''2020-10-05T14:30:00Z''\<rparr>"
proof -
  have u: "unescape_value ''10/05/2020 14:30'' = ''10/05/2020 14:30''"
    by code_simp
  have t: "strptime ''10/05/2020 14:30'' ''%m/%d/%Y %H:%M'' zero_tm =
     (Some [], \<lparr>tm_sec = 0, tm_min = 30, tm_hour = 14, tm_mday = 5, tm_mon = 9, tm_year = 120\<rparr>)"
    by code_simp
  show ?thesis
    by (simp add: parse_item_category_def due_kind_1430 due_names link_with_value_def u
          lotus_fmt_1 t strftime_1430)
qed

text \<open>
  C5, as stated, fails. In \<^verbatim>\<open>a%%\<close> followed by a backslash, the two percent signs
  are one literal percent sign and the backslash after them is not escaped, but the
  program only looks at the one character before the backslash, finds \<^verbatim>\<open>%\<close>, and in
  the end rejects the definition. And \<^verbatim>\<open>Due@|x\<close> followed by a backslash both ends
  in a backslash and contains \<^verbatim>\<open>@|\<close>: the program makes it a standard link, since the
  last character is tried first.
\<close>

theorem escaped_percent_counterexample:
  "2 \<le> length (''a%%'' @ [BACKSLASH])
   \<and> last (''a%%'' @ [BACKSLASH]) = BACKSLASH
   \<and> \<not> spec_ends_escaped (''a%%'' @ [BACKSLASH])
   \<and> link_kind (''a%%'' @ [BACKSLASH]) = Inl LinkFormatError
   \<and> parse_item_category 1 (''a%%'' @ [BACKSLASH]) = Inl LinkFormatError
   \<and> link_kind (''Due@|x'' @ [BACKSLASH]) = Inr (STF_CAT_STANDARD, ''Due@|x'', None)"
proof -
  have k: "link_kind (''a%%'' @ [BACKSLASH]) = Inl LinkFormatError"
    by code_simp
  have k2: "link_kind (''Due@|x'' @ [BACKSLASH]) = Inr (STF_CAT_STANDARD, ''Due@|x'', None)"
    by code_simp
  have e: "\<not> spec_ends_escaped (''a%%'' @ [BACKSLASH])"
    by (simp add: BACKSLASH_def)
  from k k2 e show ?thesis
    by (simp add: parse_item_category_def)
qed

text \<open>
  C5, amended: the kind of a link is decided by these tests, in this order, each on the
  text as it stands. A definition of fewer than 2 characters is rejected. One that ends
  in a backslash, where the character before it is not \<^verbatim>\<open>%\<close>, is a standard link, and
  one that ends in \<^verbatim>\<open>/\<close>, where the character before it is not \<^verbatim>\<open>%\<close>, is an exclusive
  link; in both the names are the text without its last character. One for which
  neither holds, nor the test for an unindexed link (a last \<^verbatim>\<open>|\<close> after a character
  other than \<^verbatim>\<open>%\<close>, \<^verbatim>\<open>@\<close> and \<^verbatim>\<open>#\<close>), and that contains \<^verbatim>\<open>@|\<close>, is a date link,
  split at an occurrence of \<^verbatim>\<open>@|\<close>. The link that the parser returns carries the
  name of the kind found.
\<close>

theorem link_kind_rules:
  "(length def < 2 \<longrightarrow> parse_item_category df def = Inl LinkFormatError)
   \<and> (2 \<le> length def \<and> last def = BACKSLASH \<and> def ! (length def - 2) \<noteq> CHR ''%'' \<longrightarrow>
        link_kind def = Inr (STF_CAT_STANDARD, butlast def, None))
   \<and> (2 \<le> length def \<and> last def = CHR ''/'' \<and> def ! (length def - 2) \<noteq> CHR ''%'' \<longrightarrow>
        link_kind def = Inr (STF_CAT_EXCLUSIVE, butlast def, None))
   \<and> (2 \<le> length def
        \<and> \<not> (last def = BACKSLASH \<and> def ! (length def - 2) \<noteq> CHR ''%'')
        \<and> \<not> (last def = CHR ''/'' \<and> def ! (length def - 2) \<noteq> CHR ''%'')
        \<and> \<not> (last def = CHR ''|'' \<and> def ! (length def - 2) \<notin> {CHR ''%'', CHR ''@'', CHR ''#''})
        \<and> def = xs @ ''@|'' @ ys \<longrightarrow>
        (\<exists>names v. link_kind def = Inr (STF_CAT_DATE, names, Some v) \<and> def = names @ ''@|'' @ v))
   \<and> (link_kind def = Inr (ty, names, val) \<and> parse_item_category df def = Inr l \<longrightarrow>
        link_type l = type_string ty)"
proof (intro conjI impI)
  assume "length def < 2"
  then show "parse_item_category df def = Inl LinkFormatError"
    by (simp add: parse_item_category_def link_kind_def)
next
  assume "2 \<le> length def \<and> last def = BACKSLASH \<and> def ! (length def - 2) \<noteq> CHR ''%''"
  moreover from this have "def \<noteq> []" by auto
  ultimately show "link_kind def = Inr (STF_CAT_STANDARD, butlast def, None)"
    by (simp add: link_kind_def Let_def last_nth butlast_conv_take BACKSLASH_def)
next
  assume "2 \<le> length def \<and> last def = CHR ''/'' \<and> def ! (length def - 2) \<noteq> CHR ''%''"
  moreover from this have "def \<noteq> []" by auto
  ultimately show "link_kind def = Inr (STF_CAT_EXCLUSIVE, butlast def, None)"
    by (simp add: link_kind_def Let_def last_nth butlast_conv_take BACKSLASH_def)
next
  assume "2 \<le> length def
        \<and> \<not> (last def = BACKSLASH \<and> def ! (length def - 2) \<noteq> CHR ''%'')
        \<and> \<not> (last def = CHR ''/'' \<and> def ! (length def - 2) \<noteq> CHR ''%'')
        \<and> \<not> (last def = CHR ''|'' \<and> def ! (length def - 2) \<notin> {CHR ''%'', CHR ''@'', CHR ''#''})
        \<and> def = xs @ ''@|'' @ ys"
  then have l: "2 \<le> length def"
    and r1: "\<not> (last def = BACKSLASH \<and> def ! (length def - 2) \<noteq> CHR ''%'')"
    and r2: "\<not> (last def = CHR ''/'' \<and> def ! (length def - 2) \<noteq> CHR ''%'')"
    and r3: "\<not> (last def = CHR ''|''
                \<and> def ! (length def - 2) \<notin> {CHR ''%'', CHR ''@'', CHR ''#''})"
    and eq: "def = xs @ ''@|'' @ ys"
    by blast+
  from l have ne: "def \<noteq> []" by auto
  from eq obtain i where i: "strstr def ''@|'' = Some i"
      "def = take i def @ ''@|'' @ drop (i + length ''@|'') def"
    using strstr_contains [of def xs "''@|''" ys] by blast
  from l r1 r2 r3 ne have "2 \<le> length def"
    and "\<not> (def ! (length def - 1) = BACKSLASH \<and> def ! (length def - 2) \<noteq> CHR ''%'')"
    and "\<not> (def ! (length def - 1) = CHR ''/'' \<and> def ! (length def - 2) \<noteq> CHR ''%'')"
    and "\<not> (def ! (length def - 1) = CHR ''|''
            \<and> def ! (length def - 2) \<notin> {CHR ''%'', CHR ''@'', CHR ''#''})"
    by (simp_all add: last_conv_nth)
  from link_kind_date [OF this i(1)]
  have "link_kind def = Inr (STF_CAT_DATE, take i def, Some (drop (i + 2) def))" .
  with i(2)
  show "\<exists>names v. link_kind def = Inr (STF_CAT_DATE, names, Some v) \<and> def = names @ ''@|'' @ v"
    by (intro exI [of _ "take i def"] exI [of _ "drop (i + 2) def"]) simp
next
  assume "link_kind def = Inr (ty, names, val) \<and> parse_item_category df def = Inr l"
  then show "link_type l = type_string ty"
    by (auto dest: parse_item_category_type)
qed

theorem link_kind_rules_witness:
  "length ''x'' < 2 \<and> parse_item_category 1 ''x'' = Inl LinkFormatError
   \<and> 2 \<le> length (''Work'' @ [BACKSLASH]) \<and> last (''Work'' @ [BACKSLASH]) = BACKSLASH
   \<and> (''Work'' @ [BACKSLASH]) ! (length (''Work'' @ [BACKSLASH]) - 2) \<noteq> CHR ''%''
   \<and> link_kind (''Work'' @ [BACKSLASH]) = Inr (STF_CAT_STANDARD, ''Work'', None)
   \<and> 2 \<le> length ''Work/'' \<and> last ''Work/'' = CHR ''/''
   \<and> ''Work/'' ! (length ''Work/'' - 2) \<noteq> CHR ''%''
   \<and> link_kind ''Work/'' = Inr (STF_CAT_EXCLUSIVE, ''Work'', None)
   \<and> 2 \<le> length ''Due@|10/05/2020 14:30''
   \<and> last ''Due@|10/05/2020 14:30'' \<notin> {BACKSLASH, CHR ''/'', CHR ''|''}
   \<and> ''Due@|10/05/2020 14:30'' = ''Due'' @ ''@|'' @ ''10/05/2020 14:30''
   \<and> (\<exists>names v. link_kind ''Due@|10/05/2020 14:30'' = Inr (STF_CAT_DATE, names, Some v)
         \<and> ''Due@|10/05/2020 14:30'' = names @ ''@|'' @ v)
   \<and> link_type \<lparr>link_type = ''date'', link_name = ''Due'', link_shortname = None,
          link_alsomatch = None, link_value = Some ''2020-10-05T14:30:00Z''\<rparr>
       = type_string STF_CAT_DATE"
proof -
  note r1 = link_kind_rules [where def = "''x''" and df = 1, THEN conjunct1]
  note r2 = link_kind_rules [where def = "''Work'' @ [BACKSLASH]", THEN conjunct2, THEN conjunct1]
  note r3 = link_kind_rules [where def = "''Work/''", THEN conjunct2, THEN conjunct2,
      THEN conjunct1]
  note r4 = link_kind_rules [where def = "''Due@|10/05/2020 14:30''" and xs = "''Due''"
      and ys = "''10/05/2020 14:30''", THEN conjunct2, THEN conjunct2, THEN conjunct2,
      THEN conjunct1]
  note r5 = link_kind_rules [where def = "''Due@|10/05/2020 14:30''" and df = 1
      and ty = STF_CAT_DATE and names = "''Due''" and val = "Some ''10/05/2020 14:30''"
      and l = "\<lparr>link_type = ''date'', link_name = ''Due'', link_shortname = None,
          link_alsomatch = None, link_value = Some ''2020-10-05T14:30:00Z''\<rparr>",
      THEN conjunct2, THEN conjunct2, THEN conjunct2, THEN conjunct2]
  have h1: "length ''x'' < 2"
    by simp
  have h2: "2 \<le> length (''Work'' @ [BACKSLASH]) \<and> last (''Work'' @ [BACKSLASH]) = BACKSLASH
      \<and> (''Work'' @ [BACKSLASH]) ! (length (''Work'' @ [BACKSLASH]) - 2) \<noteq> CHR ''%''"
    by simp
  have h3: "2 \<le> length ''Work/'' \<and> last ''Work/'' = CHR ''/''
      \<and> ''Work/'' ! (length ''Work/'' - 2) \<noteq> CHR ''%''"
    by simp
  have h4: "2 \<le> length ''Due@|10/05/2020 14:30''"
      "last ''Due@|10/05/2020 14:30'' \<notin> {BACKSLASH, CHR ''/'', CHR ''|''}"
      "''Due@|10/05/2020 14:30'' = ''Due'' @ ''@|'' @ ''10/05/2020 14:30''"
    by (simp_all add: BACKSLASH_def)
  from h4 have h4': "2 \<le> length ''Due@|10/05/2020 14:30''
        \<and> \<not> (last ''Due@|10/05/2020 14:30'' = BACKSLASH
             \<and> ''Due@|10/05/2020 14:30'' ! (length ''Due@|10/05/2020 14:30'' - 2) \<noteq> CHR ''%'')
        \<and> \<not> (last ''Due@|10/05/2020 14:30'' = CHR ''/''
             \<and> ''Due@|10/05/2020 14:30'' ! (length ''Due@|10/05/2020 14:30'' - 2) \<noteq> CHR ''%'')
        \<and> \<not> (last ''Due@|10/05/2020 14:30'' = CHR ''|''
             \<and> ''Due@|10/05/2020 14:30'' ! (length ''Due@|10/05/2020 14:30'' - 2)
                 \<notin> {CHR ''%'', CHR ''@'', CHR ''#''})
        \<and> ''Due@|10/05/2020 14:30'' = ''Due'' @ ''@|'' @ ''10/05/2020 14:30''"
    by blast
  have b: "butlast (''Work'' @ [BACKSLASH]) = ''Work''" "butlast ''Work/'' = ''Work''"
    by simp_all
  from r1 [rule_format, OF h1] r2 [rule_format, OF h2] r3 [rule_format, OF h3]
    r4 [rule_format, OF h4'] r5 [rule_format, OF conjI, OF due_kind_1430 due_link_1430]
    h1 h2 h3 h4
  show ?thesis unfolding b by blast
qed

section \<open>A date link in an item\<close>

text \<open>
  C6: with the date format 1, the definition \<^verbatim>\<open>Due@|10/05/2020 14:30\<close> gives the link
  of type \<^verbatim>\<open>date\<close> named \<^verbatim>\<open>Due\<close>, without short name and other names, with the value
  \<^verbatim>\<open>2020-10-05T14:30:00Z\<close>; a \<^verbatim>\<open>C\<close> chunk with this value met in state
  \<^verbatim>\<open>STF_STATE_ITEM\<close> appends that link to the links of the open item and stays in the
  state; and the input \<^verbatim>\<open>{STF}10/05/20;08:00:00;002{I}{C}Due@|10/05/2020 14:30{!}\<close> as a
  whole gives the document with this one item.
\<close>

theorem date_link_scenario:
  "parse_item_category 1 ''Due@|10/05/2020 14:30'' =
     Inr \<lparr>link_type = ''date'', link_name = ''Due'', link_shortname = None,
          link_alsomatch = None, link_value = Some ''2020-10-05T14:30:00Z''\<rparr>
   \<and> stf_switch STF_STATE_ITEM (b\<lparr>dateformat := 1\<rparr>) ''C'' (Some ''Due@|10/05/2020 14:30'') inp =
     Inr (upd_item (\<lambda>i. i\<lparr>item_categories := item_categories i @
            [\<lparr>link_type = ''date'', link_name = ''Due'', link_shortname = None,
              link_alsomatch = None, link_value = Some ''2020-10-05T14:30:00Z''\<rparr>]\<rparr>)
           (b\<lparr>dateformat := 1\<rparr>), inp)
   \<and> main ''{STF}10/05/20;08:00:00;002{I}{C}Due@|10/05/2020 14:30{!}'' =
     Inr [\<lparr>stf_timestamp = ''2020-10-05T08:00:00Z'', stf_categories = [],
           stf_items = [\<lparr>item_categories =
               [\<lparr>link_type = ''date'', link_name = ''Due'', link_shortname = None,
                 link_alsomatch = None, link_value = Some ''2020-10-05T14:30:00Z''\<rparr>],
             item_text = None, item_note = None\<rparr>]\<rparr>]"
proof -
  let ?f = "\<lparr>stf_timestamp = ''2020-10-05T08:00:00Z'', stf_categories = [], stf_items = []\<rparr>"
  let ?l = "\<lparr>link_type = ''date'', link_name = ''Due'', link_shortname = None,
             link_alsomatch = None, link_value = Some ''2020-10-05T14:30:00Z''\<rparr>"
  let ?b1 = "\<lparr>state = STF_STATE_ROOT, dateformat = 1, root = [?f]\<rparr>"
  let ?b2 = "\<lparr>state = STF_STATE_ITEM, dateformat = 1, root =
     [?f\<lparr>stf_items := [\<lparr>item_categories = [], item_text = None, item_note = None\<rparr>]\<rparr>]\<rparr>"
  let ?b3 = "\<lparr>state = STF_STATE_ITEM, dateformat = 1, root =
     [?f\<lparr>stf_items := [\<lparr>item_categories = [?l], item_text = None, item_note = None\<rparr>]\<rparr>]\<rparr>"
  let ?b4 = "\<lparr>state = STF_STATE_ROOT, dateformat = 1, root =
     [?f\<lparr>stf_items := [\<lparr>item_categories = [?l], item_text = None, item_note = None\<rparr>]\<rparr>]\<rparr>"
  let ?hdr = "''10/05/20;08:00:00;002''"
  let ?i2 = "''{I}{C}Due@|10/05/2020 14:30{!}''"
  let ?i3 = "''{C}Due@|10/05/2020 14:30{!}''"
  let ?i4 = "''{!}''"
  have r1: "read_stf_chunk (''{STF}10/05/20;08:00:00;002'' @ ?i2) =
              Some ((Some ''STF'', Some ?hdr), ?i2)"
    by code_simp
  have r2: "read_stf_chunk ?i2 = Some ((Some ''I'', None), ?i3)"
    by code_simp
  have r3: "read_stf_chunk ?i3 = Some ((Some ''C'', Some ''Due@|10/05/2020 14:30''), ?i4)"
    by code_simp
  have r4: "read_stf_chunk ?i4 = Some ((Some ''!'', None), [])"
    by code_simp
  have r5: "read_stf_chunk [] = None"
    by code_simp
  have p1: "process_chunk initial_builder (Some ''STF'', Some ?hdr) ?i2 = Inr (?b1, ?i2)"
    by (simp add: process_chunk_def initial_builder_def with_input_def header_chunk)
  have p2: "process_chunk ?b1 (Some ''I'', None) ?i3 = Inr (?b2, ?i3)"
    by code_simp
  have p3: "process_chunk ?b2 (Some ''C'', Some ''Due@|10/05/2020 14:30'') ?i4 = Inr (?b3, ?i4)"
    by (simp add: process_chunk_def with_input_def case_item_def due_link_1430 upd_item_def
          upd_stf_def)
  have p4: "process_chunk ?b3 (Some ''!'', None) [] = Inr (?b4, [])"
    by code_simp
  have run: "main (''{STF}10/05/20;08:00:00;002'' @ ?i2) = Inr (root ?b4)"
    unfolding main_def
    using stfjson_loop_step [OF r1 p1] stfjson_loop_step [OF r2 p2] stfjson_loop_step [OF r3 p3]
      stfjson_loop_step [OF r4 p4] stfjson_loop_end [OF r5, of ?b4]
    by simp
  have sw: "stf_switch STF_STATE_ITEM (b\<lparr>dateformat := 1\<rparr>) ''C''
              (Some ''Due@|10/05/2020 14:30'') inp =
            Inr (upd_item (\<lambda>i. i\<lparr>item_categories := item_categories i @ [?l]\<rparr>)
                   (b\<lparr>dateformat := 1\<rparr>), inp)"
    by (simp add: due_link_1430 case_item_def with_input_def)
  from run sw show ?thesis
    by (simp add: due_link_1430)
qed

section \<open>The attribute tag of a category\<close>

text \<open>
  Where the program does what C7 says: an \<^verbatim>\<open>r\<close> chunk that has a value, followed by
  nothing or by a chunk that has a tag. When there is no second chunk, or its tag is
  not \<^verbatim>\<open>;\<close>, or it has a value, the run ends with a grammar error. When it is \<^verbatim>\<open>;\<close>
  without a value, the value of the \<^verbatim>\<open>r\<close> chunk has been appended to the attributes of
  the open category, the second chunk is consumed, and the state is still
  \<^verbatim>\<open>STF_STATE_CATEGORY\<close>.
\<close>

lemma end_attribute_with_tag:
  assumes "state b = STF_STATE_CATEGORY"
  shows "(read_stf_chunk inp = None \<longrightarrow>
            process_chunk b (Some ''r'', Some v) inp = Inl GrammarError)
       \<and> (read_stf_chunk inp = Some ((Some t, a), inp') \<and> (t \<noteq> '';'' \<or> a \<noteq> None) \<longrightarrow>
            process_chunk b (Some ''r'', Some v) inp = Inl GrammarError)
       \<and> (read_stf_chunk inp = Some ((Some '';'', None), inp') \<longrightarrow>
            process_chunk b (Some ''r'', Some v) inp =
              Inr (upd_category (\<lambda>c. c\<lparr>cat_attributes := cat_attributes c @ [v]\<rparr>) b, inp')
            \<and> state (upd_category (\<lambda>c. c\<lparr>cat_attributes := cat_attributes c @ [v]\<rparr>) b) =
                STF_STATE_CATEGORY)"
  using assms
  by (auto simp: process_chunk_def case_category_def json_object_new_string_def)

text \<open>
  C7 does not hold of the code. When the chunk after \<^verbatim>\<open>r\<close> is the empty tag \<^verbatim>\<open>{}\<close>,
  its tag pointer is \<^verbatim>\<open>NULL\<close> and the test \<^verbatim>\<open>strcmp(attrtag, ";")\<close> reads it: the
  process ends there, not in the \<^verbatim>\<open>errx\<close> that reports an invalid end-attribute tag.
  And when the \<^verbatim>\<open>r\<close> chunk itself has no value, \<^verbatim>\<open>json_object_new_string\<close> is handed
  \<^verbatim>\<open>NULL\<close> before any second chunk is read, even if a well-formed \<^verbatim>\<open>{;}\<close> follows.
\<close>

theorem end_attribute_null_pointer:
  "main ''{STF}10/05/20;08:00:00;002{C}Work/{r}AC{}{.}'' = Inl NullPointer
   \<and> process_chunk
         \<lparr>state = STF_STATE_CATEGORY, dateformat = 1, root =
            [\<lparr>stf_timestamp = ''2020-10-05T08:00:00Z'',
              stf_categories = [\<lparr>cat_name = ''Work/'', cat_attributes = [], cat_note = None,
                                  cat_conditions = None, cat_actions = None\<rparr>],
              stf_items = []\<rparr>]\<rparr>
         (Some ''r'', Some ''AC'') ''{}{.}'' = Inl NullPointer
   \<and> read_stf_chunk ''{;}{.}'' = Some ((Some '';'', None), ''{.}'')
   \<and> process_chunk
         \<lparr>state = STF_STATE_CATEGORY, dateformat = 1, root =
            [\<lparr>stf_timestamp = ''2020-10-05T08:00:00Z'',
              stf_categories = [\<lparr>cat_name = ''Work/'', cat_attributes = [], cat_note = None,
                                  cat_conditions = None, cat_actions = None\<rparr>],
              stf_items = []\<rparr>]\<rparr>
         (Some ''r'', None) ''{;}{.}'' = Inl NullPointer"
proof -
  let ?f = "\<lparr>stf_timestamp = ''2020-10-05T08:00:00Z'', stf_categories = [], stf_items = []\<rparr>"
  let ?b1 = "\<lparr>state = STF_STATE_ROOT, dateformat = 1, root = [?f]\<rparr>"
  let ?b2 = "\<lparr>state = STF_STATE_CATEGORY, dateformat = 1, root =
            [\<lparr>stf_timestamp = ''2020-10-05T08:00:00Z'',
              stf_categories = [\<lparr>cat_name = ''Work/'', cat_attributes = [], cat_note = None,
                                  cat_conditions = None, cat_actions = None\<rparr>],
              stf_items = []\<rparr>]\<rparr>"
  let ?hdr = "''10/05/20;08:00:00;002''"
  let ?i2 = "''{C}Work/{r}AC{}{.}''"
  let ?i3 = "''{r}AC{}{.}''"
  have r1: "read_stf_chunk (''{STF}10/05/20;08:00:00;002'' @ ?i2) =
              Some ((Some ''STF'', Some ?hdr), ?i2)"
    by code_simp
  have r2: "read_stf_chunk ?i2 = Some ((Some ''C'', Some ''Work/''), ?i3)"
    by code_simp
  have r3: "read_stf_chunk ?i3 = Some ((Some ''r'', Some ''AC''), ''{}{.}'')"
    by code_simp
  have r4: "read_stf_chunk ''{}{.}'' = Some ((None, None), ''{.}'')"
    by code_simp
  have r5: "read_stf_chunk ''{;}{.}'' = Some ((Some '';'', None), ''{.}'')"
    by code_simp
  have p1: "process_chunk initial_builder (Some ''STF'', Some ?hdr) ?i2 = Inr (?b1, ?i2)"
    by (simp add: process_chunk_def initial_builder_def with_input_def header_chunk)
  have p2: "process_chunk ?b1 (Some ''C'', Some ''Work/'') ?i3 = Inr (?b2, ?i3)"
    by code_simp
  have p3: "process_chunk ?b2 (Some ''r'', Some ''AC'') ''{}{.}'' = Inl NullPointer"
    by (simp add: process_chunk_def case_category_def json_object_new_string_def r4)
  have p4: "process_chunk ?b2 (Some ''r'', None) ''{;}{.}'' = Inl NullPointer"
    by (simp add: process_chunk_def case_category_def json_object_new_string_def)
  have run: "main (''{STF}10/05/20;08:00:00;002'' @ ?i2) = Inl NullPointer"
    unfolding main_def
    using stfjson_loop_step [OF r1 p1] stfjson_loop_step [OF r2 p2] stfjson_loop_fatal [OF r3 p3]
    by simp
  from run p3 r5 p4 show ?thesis
    by simp
qed

section \<open>A header inside an open category or item\<close>

text \<open>
  C8: in each of the four states in which a category or an item is open, a chunk with
  the tag \<^verbatim>\<open>STF\<close> is a grammar error, whatever its value and whatever follows; so a
  run that reads such a chunk in such a state ends with that error and prints nothing.
\<close>

theorem header_inside_open_entity:
  assumes "state b \<in> {STF_STATE_CATEGORY, STF_STATE_CATEGORY_COND,
                       STF_STATE_CATEGORY_ACTIONS, STF_STATE_ITEM}"
  shows "process_chunk b (Some ''STF'', v) inp = Inl GrammarError
       \<and> (read_stf_chunk inp0 = Some ((Some ''STF'', v), inp) \<longrightarrow>
            stfjson_loop b inp0 = Inl GrammarError)"
proof -
  from assms have p: "process_chunk b (Some ''STF'', v) inp = Inl GrammarError"
    by (auto simp: process_chunk_def case_category_def case_category_opts_def case_item_def
          with_input_def)
  then show ?thesis
    by (auto dest: stfjson_loop_fatal)
qed

theorem header_inside_open_entity_witness:
  "main ''{STF}10/05/20;08:00:00;002{I}{STF}10/05/20;08:00:00;002{I}'' = Inl GrammarError"
proof -
  let ?f = "\<lparr>stf_timestamp = ''2020-10-05T08:00:00Z'', stf_categories = [], stf_items = []\<rparr>"
  let ?b1 = "\<lparr>state = STF_STATE_ROOT, dateformat = 1, root = [?f]\<rparr>"
  let ?b2 = "\<lparr>state = STF_STATE_ITEM, dateformat = 1, root =
     [?f\<lparr>stf_items := [\<lparr>item_categories = [], item_text = None, item_note = None\<rparr>]\<rparr>]\<rparr>"
  let ?hdr = "''10/05/20;08:00:00;002''"
  let ?i2 = "''{I}{STF}10/05/20;08:00:00;002{I}''"
  let ?i3 = "''{STF}10/05/20;08:00:00;002{I}''"
  have r1: "read_stf_chunk (''{STF}10/05/20;08:00:00;002'' @ ?i2) =
              Some ((Some ''STF'', Some ?hdr), ?i2)"
    by code_simp
  have r2: "read_stf_chunk ?i2 = Some ((Some ''I'', None), ?i3)"
    by code_simp
  have r3: "read_stf_chunk ?i3 = Some ((Some ''STF'', Some ?hdr), ''{I}'')"
    by code_simp
  have p1: "process_chunk initial_builder (Some ''STF'', Some ?hdr) ?i2 = Inr (?b1, ?i2)"
    by (simp add: process_chunk_def initial_builder_def with_input_def header_chunk)
  have p2: "process_chunk ?b1 (Some ''I'', None) ?i3 = Inr (?b2, ?i3)"
    by code_simp
  have s: "state ?b2 \<in> {STF_STATE_CATEGORY, STF_STATE_CATEGORY_COND,
                         STF_STATE_CATEGORY_ACTIONS, STF_STATE_ITEM}"
    by simp
  from header_inside_open_entity [OF s, THEN conjunct2, rule_format, OF r3]
  have "stfjson_loop ?b2 ?i3 = Inl GrammarError" .
  with stfjson_loop_step [OF r1 p1] stfjson_loop_step [OF r2 p2]
  show ?thesis
    unfolding main_def by simp
qed

section \<open>The empty tag\<close>

lemma chunk_loop_data_tag:
  "chunk_loop STF_CHUNK_DATA tagb valb inp = Some ((t, v), rest) \<Longrightarrow> t = buf_ptr tagb"
proof (induction inp arbitrary: valb rule: length_induct)
  case (1 inp)
  show ?case
  proof (cases inp)
    case Nil
    with "1.prems" show ?thesis by simp
  next
    case (Cons c r)
    note ih = "1.IH" [rule_format]
    show ?thesis
    proof (cases "c = STF_OPEN_TAG")
      case True
      show ?thesis
      proof (cases r)
        case Nil
        with True Cons "1.prems" show ?thesis by simp
      next
        case (Cons tagc r')
        show ?thesis
        proof (cases "tagc = STF_ESCAPE_TAG")
          case esc: True
          with True Cons \<open>inp = c # r\<close> "1.prems"
          have "chunk_loop STF_CHUNK_DATA tagb (valb @ [c]) r' = Some ((t, v), rest)" by simp
          moreover have "length r' < length inp" using Cons \<open>inp = c # r\<close> by simp
          ultimately show ?thesis by (rule ih [rotated])
        next
          case False
          with True Cons \<open>inp = c # r\<close> "1.prems" show ?thesis by simp
        qed
      qed
    next
      case False
      with Cons "1.prems"
      obtain valb' where "chunk_loop STF_CHUNK_DATA tagb valb' r = Some ((t, v), rest)"
        by (auto split: if_splits)
      moreover have "length r < length inp" using Cons by simp
      ultimately show ?thesis by (rule ih [rotated])
    qed
  qed
qed

text \<open>
  Whatever follows \<^verbatim>\<open>{}\<close>, the chunk that the reader returns, if it returns one, has
  the tag pointer \<^verbatim>\<open>NULL\<close>.
\<close>

lemma empty_tag_chunk_has_no_tag:
  "read_stf_chunk (STF_OPEN_TAG # STF_CLOSE_TAG # inp) = Some ((t, v), rest) \<Longrightarrow> t = None"
  by (auto simp: read_stf_chunk_def isspace_def STF_OPEN_TAG_def STF_CLOSE_TAG_def buf_ptr_def
        dest: chunk_loop_data_tag)

text \<open>
  C9 does not hold of the code. After \<^verbatim>\<open>{}\<close> the reader goes on to the data with
  \<^verbatim>\<open>*tag\<close> still \<^verbatim>\<open>NULL\<close>: nothing ever stores an empty string there. The chunk
  that comes back has no tag, and \<^verbatim>\<open>main\<close> hands that \<^verbatim>\<open>NULL\<close> to \<^verbatim>\<open>strcmp\<close>.
\<close>

theorem empty_tag_is_null_pointer:
  "read_stf_chunk ''{}{.}'' = Some ((None, None), ''{.}'')
   \<and> main ''{STF}10/05/20;08:00:00;002{}{.}'' = Inl NullPointer"
proof -
  let ?f = "\<lparr>stf_timestamp = ''2020-10-05T08:00:00Z'', stf_categories = [], stf_items = []\<rparr>"
  let ?b1 = "\<lparr>state = STF_STATE_ROOT, dateformat = 1, root = [?f]\<rparr>"
  let ?hdr = "''10/05/20;08:00:00;002''"
  have r1: "read_stf_chunk (''{STF}10/05/20;08:00:00;002'' @ ''{}{.}'') =
              Some ((Some ''STF'', Some ?hdr), ''{}{.}'')"
    by code_simp
  have r2: "read_stf_chunk ''{}{.}'' = Some ((None, None), ''{.}'')"
    by code_simp
  have p1: "process_chunk initial_builder (Some ''STF'', Some ?hdr) ''{}{.}'' = Inr (?b1, ''{}{.}'')"
    by (simp add: process_chunk_def initial_builder_def with_input_def header_chunk)
  have p2: "process_chunk ?b1 (None, None) ''{.}'' = Inl NullPointer"
    by (simp add: process_chunk_def)
  from stfjson_loop_step [OF r1 p1] stfjson_loop_fatal [OF r2 p2] r2
  show ?thesis
    unfolding main_def by simp
qed

section \<open>The value of a date link\<close>

lemma unescape_loop_plain:
  "CHR ''%'' \<notin> set src \<Longrightarrow>
   unescape_loop (pre @ src @ [NUL]) (length pre) u src =
     (pre @ src @ [NUL], plain_scan (length pre) u src)"
proof (induction src arbitrary: pre u)
  case Nil
  then show ?case by simp
next
  case (Cons c s)
  have nxt: "(pre @ c # s @ [NUL]) ! Suc (length pre) = CHR '';'' \<longleftrightarrow> s \<noteq> [] \<and> hd s = CHR '';''"
    by (cases s) (simp_all add: nth_append NUL_def)
  from Cons.prems have c: "c \<noteq> CHR ''%''" and s: "CHR ''%'' \<notin> set s" by auto
  from Cons.IH [OF s, of "pre @ [c]"] c nxt show ?case
    by (simp add: Let_def)
qed

lemma after_last_semicolon_Cons:
  "CHR '';'' \<in> set s \<Longrightarrow>
   rev (takeWhile (\<lambda>c. c \<noteq> CHR '';'') (rev (d # s))) = rev (takeWhile (\<lambda>c. c \<noteq> CHR '';'') (rev s))"
  by (simp add: takeWhile_append1)

lemma plain_scan_drop:
  "v = pre @ c # s \<Longrightarrow>
   drop (plain_scan (length pre) u (c # s)) v =
     (if CHR '';'' \<in> set s then rev (takeWhile (\<lambda>c. c \<noteq> CHR '';'') (rev s)) else drop u v)"
proof (induction s arbitrary: pre c u)
  case Nil
  then show ?case by simp
next
  case (Cons d s')
  from Cons.prems have v: "v = (pre @ [c]) @ d # s'" by simp
  let ?u' = "if d = CHR '';'' then length pre + 2 else u"
  from Cons.IH [OF v, of ?u']
  have ih: "drop (plain_scan (Suc (length pre)) ?u' (d # s')) v =
      (if CHR '';'' \<in> set s' then rev (takeWhile (\<lambda>c. c \<noteq> CHR '';'') (rev s'))
       else drop ?u' v)"
    by simp
  have step: "plain_scan (length pre) u (c # d # s') =
      plain_scan (Suc (length pre)) ?u' (d # s')"
    by simp
  have goal: "(if CHR '';'' \<in> set s' then rev (takeWhile (\<lambda>c. c \<noteq> CHR '';'') (rev s'))
       else drop ?u' v) =
      (if CHR '';'' \<in> set (d # s')
       then rev (takeWhile (\<lambda>c. c \<noteq> CHR '';'') (rev (d # s'))) else drop u v)"
  proof (cases "CHR '';'' \<in> set s'")
    case True
    then show ?thesis by (simp add: takeWhile_append1)
  next
    case False
    then have "\<forall>x \<in> set (rev s'). x \<noteq> CHR '';''" by auto
    then have tw: "takeWhile (\<lambda>c. c \<noteq> CHR '';'') (rev s' @ [d]) =
        rev s' @ takeWhile (\<lambda>c. c \<noteq> CHR '';'') [d]"
      by (intro takeWhile_append2) simp
    from Cons.prems have dr: "drop (length pre + 2) v = s'" by simp
    show ?thesis
    proof (cases "d = CHR '';''")
      case True
      with False tw dr show ?thesis by simp
    next
      case nd: False
      with False show ?thesis by simp
    qed
  qed
  show ?case unfolding step ih goal ..
qed

lemma spec_strip_escapes_plain:
  "CHR ''%'' \<notin> set v \<Longrightarrow> spec_strip_escapes v = v"
  by (induction v rule: spec_strip_escapes.induct) auto

lemma cstr_drop_terminated:
  "NUL \<notin> set v \<Longrightarrow> cstr (drop u (v @ [NUL])) = drop u v"
proof -
  assume n: "NUL \<notin> set v"
  then have "\<forall>c \<in> set (drop u v). c \<noteq> NUL"
    by (auto dest: in_set_dropD)
  then have "takeWhile (\<lambda>c. c \<noteq> NUL) (drop u v @ drop (u - length v) [NUL]) = drop u v"
    by (cases "u - length v") (simp_all add: takeWhile_append2)
  then show ?thesis by (simp add: cstr_def)
qed

lemma unescape_value_plain:
  assumes "CHR ''%'' \<notin> set v" and "NUL \<notin> set v" and "v = [] \<or> hd v \<noteq> CHR '';''"
  shows "unescape_value v = spec_date_text v"
proof (cases v)
  case Nil
  then show ?thesis
    by (simp add: unescape_value_def spec_date_text_def cstr_def)
next
  case (Cons c s)
  with assms(3) have c: "c \<noteq> CHR '';''" by simp
  from unescape_loop_plain [OF assms(1), of "[]" 0]
  have "unescape_value v = cstr (drop (plain_scan 0 0 v) (v @ [NUL]))"
    by (simp add: unescape_value_def)
  also have "\<dots> = drop (plain_scan 0 0 v) v"
    by (rule cstr_drop_terminated [OF assms(2)])
  also from plain_scan_drop [of v "[]" c s 0] Cons
  have "\<dots> = (if CHR '';'' \<in> set s then rev (takeWhile (\<lambda>c. c \<noteq> CHR '';'') (rev s)) else v)"
    by simp
  also from Cons c have "\<dots> = spec_date_text v"
    unfolding spec_date_text_def spec_strip_escapes_plain [OF assms(1)] Let_def
    by (simp add: takeWhile_append1)
  finally show ?thesis .
qed

text \<open>
  C10 does not hold of the code. The loop tests for the semicolon after it has moved
  the write pointer, so it looks at the byte that the copy holds one place further on,
  not at the byte it has just written. For \<^verbatim>\<open>%;10/05/2020 14:30\<close> the date starts one
  character late; for \<^verbatim>\<open>;10/05/2020 14:30\<close> the semicolon in the first place is never
  seen; for \<^verbatim>\<open>%a;%\<close> the result is a byte of the copy that lies behind the end of the
  text written. In the first case the link gets the all-zero date. A value without
  \<^verbatim>\<open>%\<close> that does not begin with a semicolon is handled as the claim says (lemma
  \<open>unescape_value_plain\<close>).
\<close>

theorem date_text_off_by_one:
  "unescape_value ''%;10/05/2020 14:30'' = ''0/05/2020 14:30''
   \<and> spec_date_text ''%;10/05/2020 14:30'' = ''10/05/2020 14:30''
   \<and> unescape_value '';10/05/2020 14:30'' = '';10/05/2020 14:30''
   \<and> spec_date_text '';10/05/2020 14:30'' = ''10/05/2020 14:30''
   \<and> unescape_value ''%a;%'' = ''%''
   \<and> spec_date_text ''%a;%'' = []
   \<and> parse_item_category 1 ''Due@|%;10/05/2020 14:30'' =
       Inr \<lparr>link_type = ''date'', link_name = ''Due'', link_shortname = None,
            link_alsomatch = None, link_value = Some ''1900-01-00T00:00:00Z''\<rparr>"
proof -
  have u1: "unescape_value ''%;10/05/2020 14:30'' = ''0/05/2020 14:30''"
    by code_simp
  have u2: "unescape_value '';10/05/2020 14:30'' = '';10/05/2020 14:30''"
    by code_simp
  have u3: "unescape_value ''%a;%'' = ''%''"
    by code_simp
  have s1: "spec_date_text ''%;10/05/2020 14:30'' = ''10/05/2020 14:30''"
    by code_simp
  have s2: "spec_date_text '';10/05/2020 14:30'' = ''10/05/2020 14:30''"
    by code_simp
  have s3: "spec_date_text ''%a;%'' = []"
    by code_simp
  have k: "link_kind ''Due@|%;10/05/2020 14:30'' =
             Inr (STF_CAT_DATE, ''Due'', Some ''%;10/05/2020 14:30'')"
    by code_simp
  have t: "strptime ''0/05/2020 14:30'' ''%m/%d/%Y %H:%M'' zero_tm = (None, zero_tm)"
    by code_simp
  have p: "parse_item_category 1 ''Due@|%;10/05/2020 14:30'' =
       Inr \<lparr>link_type = ''date'', link_name = ''Due'', link_shortname = None,
            link_alsomatch = None, link_value = Some ''1900-01-00T00:00:00Z''\<rparr>"
    by (simp add: parse_item_category_def k due_names link_with_value_def u1 lotus_fmt_1 t
          strftime_zero)
  from u1 u2 u3 s1 s2 s3 p show ?thesis
    by simp
qed

end
